theory Spec2Isabelle
  imports Complex_Main "HOL-Library.AList" "HOL-Library.Char_ord"
begin

section \<open>Ledger Writer: serialising and parsing rows (hooks/analytics)\<close>

text \<open>
  JavaScript strings are modelled as \<^typ>\<open>string\<close>. The four characters the row
  format depends on are named once.
\<close>

abbreviation dquote :: char where "dquote \<equiv> CHR 0x22"
abbreviation comma :: char where "comma \<equiv> CHR '',''"
abbreviation newline :: char where "newline \<equiv> CHR 0x0A"
abbreviation apostrophe :: char where "apostrophe \<equiv> CHR 0x27"

text \<open>The character class \<^verbatim>\<open>[=+\-@\t\r]\<close> of \<^verbatim>\<open>escapeCSV\<close>.\<close>

definition formulaTrigger :: "char \<Rightarrow> bool" where
  "formulaTrigger c \<longleftrightarrow>
     c = CHR ''='' \<or> c = CHR ''+'' \<or> c = CHR ''-'' \<or> c = CHR ''@'' \<or> c = CHR 0x09 \<or> c = CHR 0x0D"

text \<open>
  First step of \<^verbatim>\<open>escapeCSV\<close>:
  \<^verbatim>\<open>if (str.length > 0 && /^[=+\-@\t\r]/.test(str)) str = "'" + str\<close>.
\<close>

definition neutralizeFormula :: "string \<Rightarrow> string" where
  "neutralizeFormula str =
     (case str of [] \<Rightarrow> str | c # _ \<Rightarrow> if formulaTrigger c then apostrophe # str else str)"

text \<open>\<^verbatim>\<open>str.replace(/"/g, '""')\<close>.\<close>

fun replaceQuotes :: "string \<Rightarrow> string" where
  "replaceQuotes [] = []"
| "replaceQuotes (c # cs) =
     (if c = dquote then dquote # dquote # replaceQuotes cs else c # replaceQuotes cs)"

text \<open>
  \<^verbatim>\<open>escapeCSV(value)\<close>. The argument is the value after JavaScript's \<^verbatim>\<open>String(value)\<close>
  conversion; \<open>None\<close> stands for \<^verbatim>\<open>null\<close> and \<^verbatim>\<open>undefined\<close>.
\<close>

definition escapeCSV :: "string option \<Rightarrow> string" where
  "escapeCSV val =
     (case val of
        None \<Rightarrow> []
      | Some v \<Rightarrow>
          (let str = neutralizeFormula v in
           if comma \<in> set str \<or> dquote \<in> set str \<or> newline \<in> set str
           then dquote # replaceQuotes str @ [dquote]
           else str))"

text \<open>\<^verbatim>\<open>Array.prototype.join\<close> with a one-character separator.\<close>

fun join :: "char \<Rightarrow> string list \<Rightarrow> string" where
  "join sep [] = []"
| "join sep [x] = x"
| "join sep (x # y # ys) = x @ sep # join sep (y # ys)"

text \<open>\<^verbatim>\<open>buildCSVRow(values) = values.map((v) => escapeCSV(v)).join(",")\<close>.\<close>

definition buildCSVRow :: "string option list \<Rightarrow> string" where
  "buildCSVRow values = join comma (map escapeCSV values)"

text \<open>
  \<^verbatim>\<open>SimpleAnalytics.parseCSVRow\<close>: the \<^verbatim>\<open>for\<close> loop over the characters of the row,
  with the three loop variables \<^verbatim>\<open>result\<close>, \<^verbatim>\<open>current\<close> and \<^verbatim>\<open>inQuotes\<close> as arguments.
  \<^verbatim>\<open>row[i + 1]\<close> past the end is \<^verbatim>\<open>undefined\<close>, which is not a quote.
\<close>

fun parseCSVRow_loop :: "string \<Rightarrow> string list \<Rightarrow> string \<Rightarrow> bool \<Rightarrow> string list" where
  "parseCSVRow_loop [] result current inQuotes = result @ [current]"
| "parseCSVRow_loop (c # rest) result current inQuotes =
    (if c = dquote then
       (case rest of
          n # rest' \<Rightarrow>
            if inQuotes \<and> n = dquote
            then parseCSVRow_loop rest' result (current @ [dquote]) inQuotes
            else parseCSVRow_loop rest result current (\<not> inQuotes)
        | [] \<Rightarrow> parseCSVRow_loop rest result current (\<not> inQuotes))
     else if c = comma \<and> \<not> inQuotes
       then parseCSVRow_loop rest (result @ [current]) [] inQuotes
     else parseCSVRow_loop rest result (current @ [c]) inQuotes)"

definition parseCSVRow :: "string \<Rightarrow> string list" where
  "parseCSVRow row = parseCSVRow_loop row [] [] False"

text \<open>
  The text a reader gets back for one serialised value: the empty string for
  \<^verbatim>\<open>null\<close>/\<^verbatim>\<open>undefined\<close>, the neutralised string otherwise.
\<close>

definition fieldText :: "string option \<Rightarrow> string" where
  "fieldText val = (case val of None \<Rightarrow> [] | Some v \<Rightarrow> neutralizeFormula v)"

section \<open>Event Classifier: prompt categorisation\<close>

text \<open>
  The patterns of \<^verbatim>\<open>PROMPT_PATTERNS\<close> all have the shape \<^verbatim>\<open>/\b(a1|a2|...)\b/i\<close> with
  literal alternatives. Such a pattern matches a text when, at some position that is a
  word boundary, one alternative matches the text letter for letter (ignoring case) and
  ends at a word boundary. \<^verbatim>\<open>\w\<close> is \<^verbatim>\<open>[A-Za-z0-9_]\<close>.
\<close>

definition wordChar :: "char \<Rightarrow> bool" where
  "wordChar c \<longleftrightarrow>
     (CHR ''a'' \<le> c \<and> c \<le> CHR ''z'') \<or> (CHR ''A'' \<le> c \<and> c \<le> CHR ''Z'')
     \<or> (CHR ''0'' \<le> c \<and> c \<le> CHR ''9'') \<or> c = CHR ''_''"

definition toLowerCase :: "char \<Rightarrow> char" where
  "toLowerCase c =
     (if CHR ''A'' \<le> c \<and> c \<le> CHR ''Z'' then char_of (of_char c + (32::nat)) else c)"

text \<open>
  \<^verbatim>\<open>\b\<close> between the previous character (\<open>prevW\<close> tells whether it is a word character;
  the start of the text counts as a non-word character) and the rest of the text.
\<close>

definition wordBoundary :: "bool \<Rightarrow> string \<Rightarrow> bool" where
  "wordBoundary prevW txt \<longleftrightarrow> prevW \<noteq> (case txt of [] \<Rightarrow> False | c # _ \<Rightarrow> wordChar c)"

text \<open>
  Matching one literal alternative at the start of the text, ignoring case: the result is
  the rest of the text, with the word-character status of the last character consumed.
\<close>

fun matchLiteral :: "string \<Rightarrow> bool \<Rightarrow> string \<Rightarrow> (bool \<times> string) option" where
  "matchLiteral [] prevW txt = Some (prevW, txt)"
| "matchLiteral (p # ps) prevW [] = None"
| "matchLiteral (p # ps) prevW (c # cs) =
     (if toLowerCase c = toLowerCase p then matchLiteral ps (wordChar c) cs else None)"

definition matchHere :: "string list \<Rightarrow> bool \<Rightarrow> string \<Rightarrow> bool" where
  "matchHere alts prevW txt \<longleftrightarrow>
     wordBoundary prevW txt \<and>
     list_ex (\<lambda>alt. case matchLiteral alt prevW txt of
                       None \<Rightarrow> False
                     | Some (w, rest) \<Rightarrow> wordBoundary w rest) alts"

fun regexSearch :: "string list \<Rightarrow> bool \<Rightarrow> string \<Rightarrow> bool" where
  "regexSearch alts prevW [] = matchHere alts prevW []"
| "regexSearch alts prevW (c # cs) =
     (matchHere alts prevW (c # cs) \<or> regexSearch alts (wordChar c) cs)"

text \<open>\<^verbatim>\<open>pattern.test(text)\<close> for a pattern given by its alternatives.\<close>

definition regexTest :: "string list \<Rightarrow> string \<Rightarrow> bool" where
  "regexTest alts txt = regexSearch alts False txt"

text \<open>\<^verbatim>\<open>PROMPT_PATTERNS\<close>, each pattern as the list of its alternatives.\<close>

definition featureDev :: "string list" where
  "featureDev = [''add'', ''create'', ''implement'', ''build'', ''new feature'', ''develop'',
     ''initialise'', ''initialize'']"

definition bugFix :: "string list" where
  "bugFix = [''fix'', ''bug'', ''error'', ''issue'', ''broken'', ''not working'',
     ''doesn'' @ [apostrophe] @ ''t work'', ''doesnt work'']"

definition testing :: "string list" where
  "testing = [''test'', ''testing'', ''spec'', ''unit test'', ''integration test'', ''e2e'',
     ''verify'', ''validate'', ''behaviour'', ''behavior'']"

definition refactoring :: "string list" where
  "refactoring = [''refactor'', ''cleanup'', ''clean up'', ''reorganize'', ''reorganise'',
     ''restructure'', ''improve'', ''optimize'', ''optimise'']"

definition documentation :: "string list" where
  "documentation = [''document'', ''documentation'', ''comment'', ''readme'', ''docs'',
     ''explain'', ''describe'', ''summarise'', ''summarize'']"

definition codeUnderstanding :: "string list" where
  "codeUnderstanding = [''what'', ''how'', ''why'', ''where'', ''when'', ''explain'',
     ''understand'', ''show me'', ''tell me'', ''can you'', ''could you'', ''would you'',
     ''find'', ''analyse'', ''analyze'']"

definition explanation :: "string list" where
  "explanation = [''how does'', ''how is'', ''explain'', ''understand'']"

definition navigation :: "string list" where
  "navigation = [''find'', ''search'', ''where'', ''locate'']"

definition debugging :: "string list" where
  "debugging = [''debug'', ''debugger'', ''breakpoint'', ''trace'', ''inspect'',
     ''investigate'', ''troubleshoot'']"

definition codeReview :: "string list" where
  "codeReview = [''review'', ''check'', ''verify'', ''validate'', ''look at'', ''examine'',
     ''analyse'', ''analyze'']"

definition configuration :: "string list" where
  "configuration = [''config'', ''configure'', ''setup'', ''set up'', ''install'', ''deploy'',
     ''initialise'', ''initialize'']"

definition versionControl :: "string list" where
  "versionControl = [''commit'', ''push'', ''pull'', ''merge'', ''branch'', ''git'', ''pr'',
     ''pull request'', ''rebase'']"

record classification =
  category :: string
  subcategory :: string

text \<open>\<^verbatim>\<open>SimpleAnalytics.categorizePrompt\<close>: the groups in the order of the source.\<close>

definition categorizePrompt :: "string \<Rightarrow> classification" where
  "categorizePrompt promptText =
     (if regexTest featureDev promptText then
        (if regexTest testing promptText
         then \<lparr>category = ''feature_development'', subcategory = ''with_tests''\<rparr>
         else \<lparr>category = ''feature_development'', subcategory = ''implementation''\<rparr>)
      else if regexTest bugFix promptText then
        (if regexTest testing promptText
         then \<lparr>category = ''bug_fix'', subcategory = ''with_tests''\<rparr>
         else \<lparr>category = ''bug_fix'', subcategory = ''fix''\<rparr>)
      else if regexTest testing promptText then
        \<lparr>category = ''testing'', subcategory = ''writing_tests''\<rparr>
      else if regexTest refactoring promptText then
        \<lparr>category = ''refactoring'', subcategory = ''code_improvement''\<rparr>
      else if regexTest documentation promptText then
        \<lparr>category = ''documentation'', subcategory = ''writing_docs''\<rparr>
      else if regexTest codeUnderstanding promptText then
        (if regexTest explanation promptText
         then \<lparr>category = ''code_understanding'', subcategory = ''explanation''\<rparr>
         else if regexTest navigation promptText
         then \<lparr>category = ''code_understanding'', subcategory = ''navigation''\<rparr>
         else \<lparr>category = ''code_understanding'', subcategory = ''question''\<rparr>)
      else if regexTest debugging promptText then
        \<lparr>category = ''debugging'', subcategory = ''investigation''\<rparr>
      else if regexTest codeReview promptText then
        \<lparr>category = ''code_review'', subcategory = ''review''\<rparr>
      else if regexTest configuration promptText then
        \<lparr>category = ''configuration'', subcategory = ''setup''\<rparr>
      else if regexTest versionControl promptText then
        \<lparr>category = ''version_control'', subcategory = ''git_operations''\<rparr>
      else \<lparr>category = ''general'', subcategory = ''other''\<rparr>)"

section \<open>Cost Calculator\<close>

text \<open>
  Token counts are integers; prices and costs are JavaScript numbers, modelled by exact
  rationals (the rounding of IEEE doubles is not modelled). A missing or falsy token
  field counts as zero: \<^verbatim>\<open>usage.input_tokens || 0\<close>.
\<close>

text \<open>
  A pricing tier: the fields \<^verbatim>\<open>input\<close>, \<^verbatim>\<open>output\<close>, \<^verbatim>\<open>cacheWrite\<close> and \<^verbatim>\<open>cacheRead\<close> of the
  source, in dollars per million tokens.
\<close>

record rates =
  inputRate :: rat
  outputRate :: rat
  cacheWriteRate :: rat
  cacheReadRate :: rat

text \<open>
  An entry of \<^verbatim>\<open>CONFIG.PRICING\<close>: either it has both a \<^verbatim>\<open>standard\<close> and an
  \<^verbatim>\<open>extended\<close> tier, or it is a direct pricing object (the old format).
\<close>

datatype modelPricing = Tiered rates rates | Direct rates

definition DEFAULT_MODEL :: string where
  "DEFAULT_MODEL = ''eu.anthropic.claude-sonnet-4-5-20250929-v1:0''"

definition EXTENDED_CONTEXT_THRESHOLD :: int where
  "EXTENDED_CONTEXT_THRESHOLD = 200000"

definition PRICING :: "(string \<times> modelPricing) list" where
  "PRICING =
     [(''eu.anthropic.claude-sonnet-4-5-20250929-v1:0'',
         Tiered \<lparr>inputRate = 33/10, outputRate = 33/2, cacheWriteRate = 33/8, cacheReadRate = 33/100\<rparr>
                \<lparr>inputRate = 66/10, outputRate = 99/4, cacheWriteRate = 33/4, cacheReadRate = 66/100\<rparr>),
      (''eu.anthropic.claude-3-haiku-20240307-v1:0'',
         Tiered \<lparr>inputRate = 1/4, outputRate = 5/4, cacheWriteRate = 5/16, cacheReadRate = 1/40\<rparr>
                \<lparr>inputRate = 1/2, outputRate = 15/8, cacheWriteRate = 5/8, cacheReadRate = 1/20\<rparr>)]"

record usage =
  input_tokens :: "int option"
  output_tokens :: "int option"
  cache_creation_input_tokens :: "int option"
  cache_read_input_tokens :: "int option"

record tokenCost =
  input_cost_usd :: rat
  output_cost_usd :: rat
  cache_write_cost_usd :: rat
  cache_read_cost_usd :: rat
  total_cost_usd :: rat

text \<open>\<^verbatim>\<open>x || 0\<close> on a token count.\<close>

definition orZero :: "int option \<Rightarrow> int" where
  "orZero x = (case x of None \<Rightarrow> 0 | Some n \<Rightarrow> n)"

definition totalInputTokens :: "usage \<Rightarrow> int" where
  "totalInputTokens u =
     orZero (input_tokens u) + orZero (cache_creation_input_tokens u)
       + orZero (cache_read_input_tokens u)"

text \<open>
  \<^verbatim>\<open>SimpleAnalytics.calculateTokenCost(usage, modelName)\<close>. The model name is \<open>None\<close>
  when the transcript entry has none. The result is \<open>None\<close> where the source would
  raise a \<^verbatim>\<open>TypeError\<close>: when neither the model nor the default model is in the table.
\<close>

definition calculateTokenCost :: "usage \<Rightarrow> string option \<Rightarrow> tokenCost option" where
  "calculateTokenCost u modelName =
     (let found = (case modelName of None \<Rightarrow> None | Some m \<Rightarrow> map_of PRICING m);
          modelPricing = (case found of Some p \<Rightarrow> Some p | None \<Rightarrow> map_of PRICING DEFAULT_MODEL)
      in case modelPricing of
           None \<Rightarrow> None
         | Some mp \<Rightarrow>
            (let pricing =
                   (case mp of
                      Tiered standard extended \<Rightarrow>
                        if totalInputTokens u > EXTENDED_CONTEXT_THRESHOLD then extended
                        else standard
                    | Direct p \<Rightarrow> p);
                 inputCost = (of_int (orZero (input_tokens u)) / 1000000) * inputRate pricing;
                 outputCost = (of_int (orZero (output_tokens u)) / 1000000) * outputRate pricing;
                 cacheWriteCost =
                   (of_int (orZero (cache_creation_input_tokens u)) / 1000000) * cacheWriteRate pricing;
                 cacheReadCost =
                   (of_int (orZero (cache_read_input_tokens u)) / 1000000) * cacheReadRate pricing
             in Some \<lparr>input_cost_usd = inputCost, output_cost_usd = outputCost,
                      cache_write_cost_usd = cacheWriteCost, cache_read_cost_usd = cacheReadCost,
                      total_cost_usd = inputCost + outputCost + cacheWriteCost + cacheReadCost\<rparr>))"

text \<open>
  The cost of a usage tuple at given per-million-token rates, as the specification words
  it: each of the four categories priced per million tokens, the total their sum.
\<close>

definition perMillion :: "rates \<Rightarrow> usage \<Rightarrow> tokenCost" where
  "perMillion r u =
     \<lparr>input_cost_usd = of_int (orZero (input_tokens u)) * inputRate r / 1000000,
      output_cost_usd = of_int (orZero (output_tokens u)) * outputRate r / 1000000,
      cache_write_cost_usd = of_int (orZero (cache_creation_input_tokens u)) * cacheWriteRate r / 1000000,
      cache_read_cost_usd = of_int (orZero (cache_read_input_tokens u)) * cacheReadRate r / 1000000,
      total_cost_usd =
        (of_int (orZero (input_tokens u)) * inputRate r
          + of_int (orZero (output_tokens u)) * outputRate r
          + of_int (orZero (cache_creation_input_tokens u)) * cacheWriteRate r
          + of_int (orZero (cache_read_input_tokens u)) * cacheReadRate r) / 1000000\<rparr>"

section \<open>Ledger Writer: headers and schema migration\<close>


text \<open>
  \<^verbatim>\<open>content.split("\n")\<close>: the pieces between newlines; \<open>current\<close> is the piece being
  read.
\<close>

fun splitLines_loop :: "string \<Rightarrow> string \<Rightarrow> string list" where
  "splitLines_loop [] current = [current]"
| "splitLines_loop (c # cs) current =
     (if c = newline then current # splitLines_loop cs []
      else splitLines_loop cs (current @ [c]))"

definition splitLines :: "string \<Rightarrow> string list" where
  "splitLines content = splitLines_loop content []"

text \<open>
  \<^verbatim>\<open>String.prototype.trim\<close>. Characters are 8-bit here, so the white space and line
  terminators it strips are tab, line feed, vertical tab, form feed, carriage return,
  space and no-break space.
\<close>

definition isSpace :: "char \<Rightarrow> bool" where
  "isSpace c \<longleftrightarrow>
     c = CHR 0x09 \<or> c = CHR 0x0A \<or> c = CHR 0x0B \<or> c = CHR 0x0C \<or> c = CHR 0x0D
     \<or> c = CHR 0x20 \<or> c = CHR 0xA0"

definition trim :: "string \<Rightarrow> string" where
  "trim s = rev (dropWhile isSpace (rev (dropWhile isSpace s)))"

text \<open>
  The lines a ledger file is read as:
  \<^verbatim>\<open>content.split("\n").filter(line => line.trim())\<close>.
\<close>

definition nonBlankLines :: "string \<Rightarrow> string list" where
  "nonBlankLines content = filter (\<lambda>line. trim line \<noteq> []) (splitLines content)"

text \<open>\<^verbatim>\<open>Array.prototype.indexOf\<close>: the first index of the element, or \<open>-1\<close>.\<close>

fun indexOf :: "'a list \<Rightarrow> 'a \<Rightarrow> int" where
  "indexOf [] x = - 1"
| "indexOf (y # ys) x =
     (if y = x then 0 else (let i = indexOf ys x in if i < 0 then - 1 else i + 1))"

text \<open>
  \<^verbatim>\<open>oldIndex >= 0 ? oldValues[oldIndex] || "" : ""\<close>; an index past the end of the row
  reads \<^verbatim>\<open>undefined\<close>, which \<^verbatim>\<open>||\<close> replaces by the empty string.
\<close>

definition migratedValue :: "string list \<Rightarrow> int \<Rightarrow> string" where
  "migratedValue oldValues oldIndex =
     (if oldIndex \<ge> 0 then
        (if nat oldIndex < length oldValues then oldValues ! nat oldIndex else [])
      else [])"

text \<open>
  What \<^verbatim>\<open>migrateCSVIfNeeded\<close> leaves behind: the content of the ledger file, and the
  content of the backup file when one was written (its name carries the time of the
  migration).
\<close>

record migration =
  fileContent :: string
  backupCopy :: "string option"

text \<open>
  \<^verbatim>\<open>SimpleAnalytics.migrateCSVIfNeeded(filePath, expectedHeader)\<close>, as a function of the
  content of the file at \<^verbatim>\<open>filePath\<close>. File operations are taken to succeed.
  \<^verbatim>\<open>appendCSV(filePath, header)\<close> appends the header and a newline.
\<close>

definition migrateCSVIfNeeded :: "string \<Rightarrow> string \<Rightarrow> migration" where
  "migrateCSVIfNeeded content expectedHeader =
     (case nonBlankLines content of
        [] \<Rightarrow> \<lparr>fileContent = content @ expectedHeader @ [newline], backupCopy = None\<rparr>
      | existingHeader # dataLines \<Rightarrow>
          if existingHeader = expectedHeader
          then \<lparr>fileContent = content, backupCopy = None\<rparr>
          else
            (let oldColumns = parseCSVRow existingHeader;
                 newColumns = parseCSVRow expectedHeader;
                 columnMapping = map (indexOf oldColumns) newColumns;
                 migratedLines =
                   expectedHeader #
                   map (\<lambda>line.
                          buildCSVRow
                            (map (\<lambda>oldIndex. Some (migratedValue (parseCSVRow line) oldIndex))
                               columnMapping))
                     dataLines
             in \<lparr>fileContent = join newline migratedLines @ [newline],
                 backupCopy = Some content\<rparr>))"


text \<open>
  The rows of a ledger file as the format defines them, independently of how the migration
  reads the file: a row ends at a newline outside double quotes, the quoting state
  changes at every double quote, and blank rows do not count.
\<close>

fun csvRecords_loop :: "string \<Rightarrow> string \<Rightarrow> bool \<Rightarrow> string list" where
  "csvRecords_loop [] current inQuotes = [current]"
| "csvRecords_loop (c # cs) current inQuotes =
     (if c = dquote then csvRecords_loop cs (current @ [c]) (\<not> inQuotes)
      else if c = newline \<and> \<not> inQuotes then current # csvRecords_loop cs [] False
      else csvRecords_loop cs (current @ [c]) inQuotes)"

definition csvRecords :: "string \<Rightarrow> string list" where
  "csvRecords content = filter (\<lambda>row. trim row \<noteq> []) (csvRecords_loop content [] False)"




section \<open>Session state, ledgers and events\<close>

text \<open>
  The analytics object keeps three in-memory tables indexed by session identifier
  (\<^verbatim>\<open>currentTurn\<close>, \<^verbatim>\<open>toolStartData\<close>, \<^verbatim>\<open>toolCounter\<close>) and persists them in one
  state file per session. Session identifiers are strings; a session's state file is
  determined by its identifier and distinct identifiers have distinct files. The tables
  are plain JavaScript objects (\<^verbatim>\<open>this.currentTurn = {}\<close>) used as dictionaries; the
  entries stored in them are modelled as maps. Times are
  milliseconds, as \<^verbatim>\<open>Date.now()\<close> returns them; turn numbers and counters are integers
  (the 53-bit limit of exact JavaScript integers is not modelled); costs are rationals.
\<close>

text \<open>
  A lookup \<^verbatim>\<open>table[key]\<close> in a plain object finds the entry stored under the key and,
  when there is none, the member of that name that every object inherits from
  \<^verbatim>\<open>Object.prototype\<close>. These are the names of the inherited members. Each of them is a
  function, or for \<^verbatim>\<open>__proto__\<close> the prototype object itself: a truthy value that, when a
  process starts, has no property \<^verbatim>\<open>number\<close>, \<^verbatim>\<open>startTime\<close>, \<^verbatim>\<open>toolCount\<close> or
  \<^verbatim>\<open>turnCost\<close>. The lookup of \<^verbatim>\<open>handleTurnStart\<close> and \<^verbatim>\<open>writeTurnData\<close> is modelled
  with the inherited members; the handlers of the tool, compaction and stop events are
  modelled for session identifiers that are not such names.
\<close>

definition objectPrototypeNames :: "string list" where
  "objectPrototypeNames =
     [''constructor'', ''__defineGetter__'', ''__defineSetter__'', ''hasOwnProperty'',
      ''__lookupGetter__'', ''__lookupSetter__'', ''isPrototypeOf'', ''propertyIsEnumerable'',
      ''toString'', ''valueOf'', ''__proto__'', ''toLocaleString'']"

text \<open>The lookup finds no stored entry but an inherited member.\<close>

definition inheritedMember :: "(string \<rightharpoonup> 'a) \<Rightarrow> string \<Rightarrow> bool" where
  "inheritedMember table key \<longleftrightarrow> table key = None \<and> key \<in> set objectPrototypeNames"

text \<open>An entry of \<^verbatim>\<open>currentTurn\<close>.\<close>

record turnState =
  number :: int
  startTime :: int
  toolCount :: int
  turnCost :: rat
  totalSessionCost :: rat

text \<open>
  An entry of \<^verbatim>\<open>toolStartData[sessionId]\<close>; \<open>toolStartTime\<close> is the field
  \<^verbatim>\<open>startTime\<close> of the source.
\<close>

record toolStart =
  toolName :: string
  turnNumber :: int
  toolStartTime :: int
  inputSize :: int

text \<open>
  The in-flight table of one session is a JavaScript object whose keys are never integer
  indices (they contain an underscore), so \<^verbatim>\<open>Object.keys\<close> lists them in insertion order:
  an association list, written with \<^const>\<open>AList.update\<close> (replace in place, or add at
  the end) and \<^const>\<open>AList.delete\<close>. The order survives \<^verbatim>\<open>JSON.stringify\<close> and
  \<^verbatim>\<open>JSON.parse\<close>.
\<close>

type_synonym inflight = "(string \<times> toolStart) list"

text \<open>The content of a session's state file, as \<^verbatim>\<open>saveTurnState\<close> writes it.\<close>

record stateFile =
  fileCurrentTurn :: turnState
  fileToolStartData :: inflight
  fileToolCounter :: int

text \<open>
  A value handed to \<^verbatim>\<open>buildCSVRow\<close>: a string, an integer, a cost, a number formatted by
  \<^verbatim>\<open>toFixed(10)\<close> or \<^verbatim>\<open>toFixed(2)\<close>, \<^verbatim>\<open>undefined\<close> (written as the empty field), or the
  number \<^verbatim>\<open>NaN\<close>. A ledger is modelled by the list
  of the value arrays appended to it, oldest first; its file holds the header and the
  image of each array under \<^verbatim>\<open>buildCSVRow\<close>.
\<close>

datatype cell = S string | I int | R rat | Fixed10 rat | Fixed2 rat | Undef | NaN

type_synonym ledger = "cell list list"

record repoInfo =
  repoUrl :: string
  repoName :: string
  repoBranch :: string
  repoHeadCommit :: string

text \<open>
  Everything an event can read or change: the fields of the analytics object, the state
  files, the eight ledgers and the error stream.
\<close>

record world =
  userId :: string
  repo :: repoInfo
  currentTurn :: "string \<rightharpoonup> turnState"
  toolStartData :: "string \<rightharpoonup> inflight"
  toolCounter :: "string \<rightharpoonup> int"
  stateFiles :: "string \<rightharpoonup> stateFile"
  sessionsCsv :: ledger
  turnsCsv :: ledger
  commitsCsv :: ledger
  toolsCsv :: ledger
  costsCsv :: ledger
  promptsCsv :: ledger
  gitOpsCsv :: ledger
  compactionsCsv :: ledger
  stderr :: "string list"

text \<open>A line of the transcript that parses as JSON, reduced to the fields that are read.\<close>

record transcriptEntry =
  entry_type :: "string option"
  message_usage :: "usage option"
  message_model :: "string option"
  message_id :: "string option"
  entry_timestamp :: "int option"

text \<open>
  The decoded event. \<open>hook_event_name\<close> is \<open>None\<close> when the field is missing or
  not a string; \<open>tool_name\<close>, \<open>prompt\<close>, \<open>transcript_path\<close> and the compaction
  fields are \<open>None\<close> when missing. The host supplies \<open>session_id\<close> with every event.
  \<open>tool_input_size\<close> and \<open>tool_output_size\<close> stand for
  \<^verbatim>\<open>JSON.stringify(tool_input || {}).length\<close> and
  \<^verbatim>\<open>JSON.stringify(tool_output || {}).length\<close>, \<open>tool_input_command\<close> for
  \<^verbatim>\<open>tool_input?.command\<close>; \<open>success\<close> and \<open>was_interrupted\<close> are the truth values of
  these fields (\<open>success\<close> defaults to true).
\<close>

record event =
  hook_event_name :: "string option"
  tool_name :: "string option"
  session_id :: string
  prompt :: "string option"
  tool_input_size :: int
  tool_input_command :: "string option"
  tool_output_size :: int
  success :: bool
  transcript_path :: "string option"
  was_interrupted :: bool
  tokens_before :: "int option"
  context_window_before :: "int option"
  tokens_after :: "int option"
  context_window_after :: "int option"
  compaction_type :: "string option"
  event_type :: "string option"
  trigger_reason :: "string option"
  event_reason :: "string option"

text \<open>What \<^verbatim>\<open>JSON.parse\<close> of the input can be: an object, or anything else.\<close>

datatype eventData = NotAnObject | EventObject event

text \<open>
  What one invocation reads from outside: the clock, the identifier
  \<^verbatim>\<open>generateSessionId()\<close> would produce, the transcript files, and the outcome of the two
  git trackers. \<open>gitOperationRow\<close> is the row \<^verbatim>\<open>handleGitOperations\<close> builds for the
  command, if it recognises a push, pull, fetch, clone or merge; \<open>gitCommitRow\<close> is the
  row \<^verbatim>\<open>handleGitCommand\<close> builds from the git executable, if the command is a commit
  and git answers.
\<close>

record ambient =
  now :: int
  generatedSessionId :: string
  transcriptFile :: "string \<rightharpoonup> transcriptEntry list"
  gitOperationRow :: "string \<Rightarrow> cell list option"
  gitCommitRow :: "string \<Rightarrow> cell list option"

datatype validation = Valid | Invalid string

text \<open>\<^verbatim>\<open>validateEventData\<close>.\<close>

definition validEvents :: "string list" where
  "validEvents = [''UserPromptSubmit'', ''PreToolUse'', ''PostToolUse'', ''PreCompact'', ''Stop'']"

text \<open>JavaScript truthiness of an optional string: present and not empty.\<close>

definition truthy :: "string option \<Rightarrow> bool" where
  "truthy x \<longleftrightarrow> (case x of None \<Rightarrow> False | Some s \<Rightarrow> s \<noteq> [])"

definition validateEventData :: "eventData \<Rightarrow> validation" where
  "validateEventData eventData =
     (case eventData of
        NotAnObject \<Rightarrow> Invalid ''Event data must be an object''
      | EventObject ev \<Rightarrow>
          (case hook_event_name ev of
             None \<Rightarrow> Invalid ''hook_event_name is required and must be a string''
           | Some name \<Rightarrow>
               if name = [] then Invalid ''hook_event_name is required and must be a string''
               else if name \<notin> set validEvents
                 then Invalid (''Unknown hook_event_name: '' @ name)
               else if (name = ''PreToolUse'' \<or> name = ''PostToolUse'') \<and> \<not> truthy (tool_name ev)
                 then Invalid (name @ '' requires tool_name'')
               else Valid))"

section \<open>Session State Store\<close>

text \<open>
  \<^verbatim>\<open>loadTurnState\<close> and \<^verbatim>\<open>saveTurnState\<close>. File operations are taken to succeed, and a
  state file holds what \<^verbatim>\<open>saveTurnState\<close> wrote.
\<close>

definition loadTurnState :: "string \<Rightarrow> world \<Rightarrow> world" where
  "loadTurnState sessionId w =
     (case stateFiles w sessionId of
        None \<Rightarrow> w
      | Some state \<Rightarrow>
          w\<lparr>currentTurn := (currentTurn w)(sessionId \<mapsto> fileCurrentTurn state),
            toolStartData := (toolStartData w)(sessionId \<mapsto> fileToolStartData state),
            toolCounter := (toolCounter w)(sessionId \<mapsto> fileToolCounter state)\<rparr>)"

definition saveTurnState :: "string \<Rightarrow> world \<Rightarrow> world" where
  "saveTurnState sessionId w =
     (case currentTurn w sessionId of
        None \<Rightarrow> w
      | Some t \<Rightarrow>
          w\<lparr>stateFiles := (stateFiles w)(sessionId \<mapsto>
              \<lparr>fileCurrentTurn = t,
               fileToolStartData = (case toolStartData w sessionId of None \<Rightarrow> [] | Some d \<Rightarrow> d),
               fileToolCounter = (case toolCounter w sessionId of None \<Rightarrow> 0 | Some c \<Rightarrow> c)\<rparr>)\<rparr>)"

text \<open>
  The opening of the handlers:
  \<^verbatim>\<open>if (!this.currentTurn[sessionId]) await this.loadTurnState(sessionId)\<close>.
\<close>

definition loadIfAbsent :: "string \<Rightarrow> world \<Rightarrow> world" where
  "loadIfAbsent sessionId w =
     (if currentTurn w sessionId = None then loadTurnState sessionId w else w)"

text \<open>\<^verbatim>\<open>getCurrentTurnNumber\<close>: \<^verbatim>\<open>this.currentTurn[sessionId]?.number || 1\<close>.\<close>

definition getCurrentTurnNumber :: "string \<Rightarrow> world \<Rightarrow> int" where
  "getCurrentTurnNumber sessionId w =
     (case currentTurn w sessionId of
        None \<Rightarrow> 1
      | Some t \<Rightarrow> if number t = 0 then 1 else number t)"

section \<open>Turn/Tool State Machine\<close>

text \<open>
  \<^verbatim>\<open>writeTurnData\<close>: one row of the turns ledger for the open turn. When
  \<^verbatim>\<open>this.currentTurn[sessionId]\<close> is an inherited member the guard
  \<^verbatim>\<open>if (!this.currentTurn[sessionId]) return\<close> lets it through, and the row is built from
  its properties: \<^verbatim>\<open>number\<close>, \<^verbatim>\<open>startTime\<close> and \<^verbatim>\<open>toolCount\<close> are undefined and
  \<^verbatim>\<open>turnCost || 0\<close> is 0.
\<close>

definition writeTurnData :: "string \<Rightarrow> int \<Rightarrow> bool \<Rightarrow> world \<Rightarrow> world" where
  "writeTurnData sessionId endTime wasInterrupted w =
     (case currentTurn w sessionId of
        None \<Rightarrow>
          if inheritedMember (currentTurn w) sessionId then
            w\<lparr>turnsCsv := turnsCsv w @
                [[S sessionId, S (userId w), Undef, Undef, I endTime,
                  Undef, R 0, I (if wasInterrupted then 1 else 0)]]\<rparr>
          else w
      | Some t \<Rightarrow>
          w\<lparr>turnsCsv := turnsCsv w @
              [[S sessionId, S (userId w), I (number t), I (startTime t), I endTime,
                I (toolCount t), R (turnCost t), I (if wasInterrupted then 1 else 0)]]\<rparr>)"

text \<open>
  \<^verbatim>\<open>handleTurnStart\<close>. When \<^verbatim>\<open>this.currentTurn[sessionId]\<close> is an inherited member, every
  test of the handler finds a truthy value: no state is loaded, \<^verbatim>\<open>writeTurnData\<close> writes
  its row, no turn is initialised, and \<^verbatim>\<open>number++\<close> on the undefined property leaves
  \<^verbatim>\<open>NaN\<close>, which the prompt row carries. Nothing is stored in the table.
  \<^verbatim>\<open>saveTurnState\<close> then writes a state file, which no handler reads, every load being
  behind the same lookup; the model leaves that file out. The properties the handler sets
  on the inherited member last until the process exits; the program handles one event per
  process (its entry point reads one event from the standard input and exits), and the
  model does not keep them. Otherwise the handler works on the stored entry.
\<close>

definition handleTurnStart :: "ambient \<Rightarrow> string \<Rightarrow> event \<Rightarrow> world \<Rightarrow> world" where
  "handleTurnStart a sessionId ev w =
     (if inheritedMember (currentTurn w) sessionId then
        (let w2 = writeTurnData sessionId (now a) False w
         in case prompt ev of
              None \<Rightarrow> w2
            | Some p \<Rightarrow>
                if p \<noteq> [] \<and> trim p \<noteq> [] then
                  w2\<lparr>promptsCsv := promptsCsv w2 @
                      [[S sessionId, S (userId w2), NaN,
                        S (category (categorizePrompt p)), S (subcategory (categorizePrompt p)),
                        I (int (length (trim p))), I (now a)]]\<rparr>
                else w2)
      else
        (let w1 = loadIfAbsent sessionId w;
             w2 = (if currentTurn w1 sessionId \<noteq> None
                   then writeTurnData sessionId (now a) False w1 else w1);
             turn = (case currentTurn w2 sessionId of
                       None \<Rightarrow> \<lparr>number = 1, startTime = now a, toolCount = 0, turnCost = 0,
                                 totalSessionCost = 0\<rparr>
                     | Some t \<Rightarrow> t\<lparr>number := number t + 1, startTime := now a, toolCount := 0,
                                  turnCost := 0\<rparr>);
             w3 = w2\<lparr>currentTurn := (currentTurn w2)(sessionId \<mapsto> turn)\<rparr>;
             w4 = saveTurnState sessionId w3
         in case prompt ev of
              None \<Rightarrow> w4
            | Some p \<Rightarrow>
                if p \<noteq> [] \<and> trim p \<noteq> [] then
                  w4\<lparr>promptsCsv := promptsCsv w4 @
                      [[S sessionId, S (userId w4), I (number turn),
                        S (category (categorizePrompt p)), S (subcategory (categorizePrompt p)),
                        I (int (length (trim p))), I (now a)]]\<rparr>
                else w4))"

text \<open>\<^verbatim>\<open>String(n)\<close> for an integer, used in the key of an in-flight entry.\<close>

function natToString :: "nat \<Rightarrow> string" where
  "natToString n =
     (if n < 10 then [char_of (48 + n)]
      else natToString (n div 10) @ [char_of (48 + n mod 10)])"
  by pat_completeness auto
termination
  by (relation "measure id") auto

definition numberToString :: "int \<Rightarrow> string" where
  "numberToString i = (if i < 0 then CHR ''-'' # natToString (nat (- i)) else natToString (nat i))"

text \<open>
  \<^verbatim>\<open>handleGitOperations\<close> and \<^verbatim>\<open>handleGitCommand\<close>: whether the command is recognised
  and what row results is read from the ambient.
\<close>

definition handleGitOperations :: "ambient \<Rightarrow> string \<Rightarrow> world \<Rightarrow> world" where
  "handleGitOperations a command w =
     (case gitOperationRow a command of
        None \<Rightarrow> w
      | Some row \<Rightarrow> w\<lparr>gitOpsCsv := gitOpsCsv w @ [row]\<rparr>)"

definition handleGitCommand :: "ambient \<Rightarrow> string \<Rightarrow> world \<Rightarrow> world" where
  "handleGitCommand a command w =
     (case gitCommitRow a command of
        None \<Rightarrow> w
      | Some row \<Rightarrow> w\<lparr>commitsCsv := commitsCsv w @ [row]\<rparr>)"

text \<open>\<^verbatim>\<open>handleToolStart\<close>.\<close>

definition handleToolStart :: "ambient \<Rightarrow> string \<Rightarrow> string \<Rightarrow> event \<Rightarrow> world \<Rightarrow> world" where
  "handleToolStart a sessionId tname ev w =
     (let w1 = loadIfAbsent sessionId w;
          turnNo = getCurrentTurnNumber sessionId w1;
          w2 = (case currentTurn w1 sessionId of
                  None \<Rightarrow> w1
                | Some t \<Rightarrow>
                    w1\<lparr>currentTurn := (currentTurn w1)(sessionId \<mapsto> t\<lparr>toolCount := toolCount t + 1\<rparr>)\<rparr>);
          counter = (case toolCounter w2 sessionId of None \<Rightarrow> 0 | Some c \<Rightarrow> c) + 1;
          toolKey = sessionId @ ''_'' @ tname @ ''_'' @ numberToString counter;
          entries = (case toolStartData w2 sessionId of None \<Rightarrow> [] | Some d \<Rightarrow> d);
          w3 = w2\<lparr>toolCounter := (toolCounter w2)(sessionId \<mapsto> counter),
                  toolStartData := (toolStartData w2)(sessionId \<mapsto>
                    AList.update toolKey
                      \<lparr>toolName = tname, turnNumber = turnNo, toolStartTime = now a,
                       inputSize = tool_input_size ev\<rparr> entries)\<rparr>;
          w4 = saveTurnState sessionId w3
      in if tname = ''Bash'' \<and> truthy (tool_input_command ev)
         then handleGitOperations a (the (tool_input_command ev)) w4
         else w4)"

text \<open>
  The search of \<^verbatim>\<open>handleToolEnd\<close>:
  \<^verbatim>\<open>Object.keys(data).reverse().find(key => data[key].toolName === toolName)\<close>, with the
  entry found.
\<close>

definition findMatching :: "string \<Rightarrow> inflight \<Rightarrow> (string \<times> toolStart) option" where
  "findMatching tname entries = find (\<lambda>(key, e). toolName e = tname) (rev entries)"

text \<open>\<^verbatim>\<open>handleToolEnd\<close>.\<close>

definition handleToolEnd :: "ambient \<Rightarrow> string \<Rightarrow> string \<Rightarrow> event \<Rightarrow> world \<Rightarrow> world" where
  "handleToolEnd a sessionId tname ev w =
     (let w1 = loadIfAbsent sessionId w;
          matching = (case toolStartData w1 sessionId of
                        None \<Rightarrow> None
                      | Some d \<Rightarrow> findMatching tname d)
      in case (case matching of None \<Rightarrow> None
               | Some (key, e) \<Rightarrow> if key = [] then None else Some (key, e)) of
           None \<Rightarrow>
             w1\<lparr>stderr := stderr w1 @
                 [''[Analytics Warning] No matching tool start found for tool: '' @ tname
                    @ '', session: '' @ sessionId @ ''. Tool completion data dropped.'']\<rparr>
         | Some (matchingKey, startData) \<Rightarrow>
             (let processingTime = now a - toolStartTime startData;
                  w2 = w1\<lparr>toolsCsv := toolsCsv w1 @
                         [[S sessionId, S (userId w1), I (turnNumber startData), S tname,
                           I (toolStartTime startData), I (now a),
                           S (if success ev then ''1'' else ''0''), I processingTime,
                           I (inputSize startData), I (tool_output_size ev)]]\<rparr>;
                  w3 = w2\<lparr>toolStartData := (toolStartData w2)(sessionId \<mapsto>
                          AList.delete matchingKey (the (toolStartData w2 sessionId)))\<rparr>;
                  w4 = (if tname = ''Bash'' \<and> inputSize startData \<noteq> 0
                           \<and> truthy (tool_input_command ev)
                        then handleGitCommand a (the (tool_input_command ev)) w3
                        else w3)
              in saveTurnState sessionId w4))"

text \<open>\<^verbatim>\<open>x || d\<close> on an optional integer and on an optional string.\<close>

definition intOr :: "int option \<Rightarrow> int \<Rightarrow> int" where
  "intOr x d = (case x of None \<Rightarrow> d | Some n \<Rightarrow> if n = 0 then d else n)"

definition strOr :: "string option \<Rightarrow> string \<Rightarrow> string" where
  "strOr x d = (case x of None \<Rightarrow> d | Some s \<Rightarrow> if s = [] then d else s)"

text \<open>\<^verbatim>\<open>handleCompaction\<close>. It reads the turn number from memory without loading.\<close>

definition handleCompaction :: "ambient \<Rightarrow> string \<Rightarrow> event \<Rightarrow> world \<Rightarrow> world" where
  "handleCompaction a sessionId ev w =
     (let turnNo = getCurrentTurnNumber sessionId w;
          tokensBefore = intOr (tokens_before ev) (intOr (context_window_before ev) 0);
          tokensAfter = intOr (tokens_after ev) (intOr (context_window_after ev) 0);
          reductionTokens = tokensBefore - tokensAfter;
          reductionPercent =
            (if tokensBefore > 0
             then Fixed2 (of_int reductionTokens / of_int tokensBefore * 100) else I 0);
          compactionType = strOr (compaction_type ev) (strOr (event_type ev) ''auto'');
          triggerReason = strOr (trigger_reason ev) (strOr (event_reason ev) ''threshold'')
      in w\<lparr>compactionsCsv := compactionsCsv w @
            [[S sessionId, S (userId w), I turnNo, I (now a), I tokensBefore, I tokensAfter,
              I reductionTokens, reductionPercent, S compactionType, S triggerReason]]\<rparr>)"

text \<open>A record of \<^verbatim>\<open>parseTranscriptTokens\<close>.\<close>

record tokenRecord =
  rec_message_id :: "string option"
  rec_input_tokens :: int
  rec_output_tokens :: int
  rec_total_tokens :: int
  rec_model_name :: "string option"
  rec_timestamp :: "int option"
  rec_costs :: tokenCost

text \<open>
  \<^verbatim>\<open>parseTranscriptTokens\<close>: one record per assistant entry with a usage; a missing file
  gives no record, and an entry whose processing raises is skipped.
\<close>

definition parseTranscriptTokens :: "ambient \<Rightarrow> string \<Rightarrow> tokenRecord list" where
  "parseTranscriptTokens a transcriptPath =
     (case transcriptFile a transcriptPath of
        None \<Rightarrow> []
      | Some entries \<Rightarrow>
          List.map_filter
            (\<lambda>entry.
               if entry_type entry = Some ''assistant'' then
                 (case message_usage entry of
                    None \<Rightarrow> None
                  | Some u \<Rightarrow>
                      (case calculateTokenCost u (message_model entry) of
                         None \<Rightarrow> None
                       | Some costs \<Rightarrow>
                           Some \<lparr>rec_message_id = message_id entry,
                                 rec_input_tokens = orZero (input_tokens u),
                                 rec_output_tokens = orZero (output_tokens u),
                                 rec_total_tokens = orZero (input_tokens u) + orZero (output_tokens u),
                                 rec_model_name = message_model entry,
                                 rec_timestamp = entry_timestamp entry,
                                 rec_costs = costs\<rparr>))
               else None)
            entries)"

text \<open>\<^verbatim>\<open>updateSessionRecord\<close>: one row of the sessions ledger.\<close>

definition updateSessionRecord ::
  "string \<Rightarrow> int \<Rightarrow> rat \<Rightarrow> bool \<Rightarrow> int \<Rightarrow> world \<Rightarrow> world" where
  "updateSessionRecord sessionId turnCount totalCost wasInterrupted endTime w =
     (let started = (case currentTurn w sessionId of
                       None \<Rightarrow> S []
                     | Some t \<Rightarrow> if startTime t = 0 then S [] else I (startTime t))
      in w\<lparr>sessionsCsv := sessionsCsv w @
            [[S sessionId, S (userId w), S (repoUrl (repo w)), S (repoName (repo w)),
              S (repoBranch (repo w)), S (repoHeadCommit (repo w)), started, I endTime,
              I turnCount, Fixed10 totalCost, I (if wasInterrupted then 1 else 0)]]\<rparr>)"

text \<open>\<^verbatim>\<open>cleanupSession\<close>: the in-memory entries go, the state file stays.\<close>

definition cleanupSession :: "string \<Rightarrow> world \<Rightarrow> world" where
  "cleanupSession sessionId w =
     w\<lparr>currentTurn := (currentTurn w)(sessionId := None),
       toolStartData := (toolStartData w)(sessionId := None),
       toolCounter := (toolCounter w)(sessionId := None)\<rparr>"

text \<open>\<^verbatim>\<open>handleSessionEnd\<close>.\<close>

definition handleSessionEnd :: "ambient \<Rightarrow> string \<Rightarrow> event \<Rightarrow> world \<Rightarrow> world" where
  "handleSessionEnd a sessionId ev w =
     (let w1 = loadIfAbsent sessionId w;
          turnNo = getCurrentTurnNumber sessionId w1;
          tokenRecords =
            (if truthy (transcript_path ev) \<and> currentTurn w1 sessionId \<noteq> None
             then parseTranscriptTokens a (the (transcript_path ev)) else []);
          w2 = (case currentTurn w1 sessionId of
                  None \<Rightarrow> w1
                | Some t \<Rightarrow>
                    if tokenRecords = [] then w1
                    else
                      (let latestRecord = last tokenRecords;
                           w1' = w1\<lparr>costsCsv := costsCsv w1 @
                                   [[S sessionId, S (userId w1), I turnNo,
                                     S (strOr (rec_message_id latestRecord) []),
                                     S (strOr (rec_model_name latestRecord) DEFAULT_MODEL),
                                     I (rec_input_tokens latestRecord),
                                     I (rec_output_tokens latestRecord),
                                     I (rec_total_tokens latestRecord),
                                     R (input_cost_usd (rec_costs latestRecord)),
                                     R (output_cost_usd (rec_costs latestRecord)),
                                     R (total_cost_usd (rec_costs latestRecord)),
                                     I (intOr (rec_timestamp latestRecord) (now a))]],
                                 currentTurn := (currentTurn w1)(sessionId \<mapsto>
                                   t\<lparr>turnCost := total_cost_usd (rec_costs latestRecord),
                                     totalSessionCost :=
                                       totalSessionCost t + total_cost_usd (rec_costs latestRecord)\<rparr>)\<rparr>
                       in saveTurnState sessionId w1'));
          totalCost = (case currentTurn w2 sessionId of
                         None \<Rightarrow> 0
                       | Some t \<Rightarrow> totalSessionCost t);
          w3 = updateSessionRecord sessionId turnNo totalCost (was_interrupted ev) (now a) w2
      in cleanupSession sessionId w3)"

section \<open>Event Dispatcher\<close>

text \<open>
  \<^verbatim>\<open>processHookEvent\<close>: an invalid event is reported on the error stream and dropped; a
  valid one goes to its handler. With file operations taken to succeed no handler of the
  model raises, so the \<^verbatim>\<open>try\<close>/\<^verbatim>\<open>catch\<close> around the dispatch has nothing to catch. The
  debug log file (\<^verbatim>\<open>logDebug\<close>) is not modelled.
\<close>

definition processHookEvent :: "ambient \<Rightarrow> eventData \<Rightarrow> world \<Rightarrow> world" where
  "processHookEvent a eventData w =
     (case validateEventData eventData of
        Invalid err \<Rightarrow>
          w\<lparr>stderr := stderr w @ [''[Analytics Error] Invalid event data: '' @ err]\<rparr>
      | Valid \<Rightarrow>
          (case eventData of
             NotAnObject \<Rightarrow> w
           | EventObject ev \<Rightarrow>
               if hook_event_name ev = Some ''UserPromptSubmit''
                 then handleTurnStart a (session_id ev) ev w
               else if hook_event_name ev = Some ''PreToolUse'' \<and> truthy (tool_name ev)
                 then handleToolStart a
                        (if session_id ev = [] then generatedSessionId a else session_id ev)
                        (the (tool_name ev)) ev w
               else if hook_event_name ev = Some ''PostToolUse'' \<and> truthy (tool_name ev)
                 then handleToolEnd a (session_id ev) (the (tool_name ev)) ev w
               else if hook_event_name ev = Some ''PreCompact''
                 then handleCompaction a (session_id ev) ev w
               else if hook_event_name ev = Some ''Stop''
                 then handleSessionEnd a (session_id ev) ev w
               else w))"

text \<open>
  A new process starts with empty tables (\<^verbatim>\<open>new SimpleAnalytics()\<close>); files persist.
\<close>

definition freshProcess :: "world \<Rightarrow> world" where
  "freshProcess w = w\<lparr>currentTurn := Map.empty, toolStartData := Map.empty, toolCounter := Map.empty\<rparr>"

text \<open>
  A history of the engine: events processed one after the other, each with a flag telling
  whether a new process is started for it (as the host does), with what it reads from
  outside.
\<close>

fun run :: "world \<Rightarrow> (bool \<times> ambient \<times> eventData) list \<Rightarrow> world" where
  "run w [] = w"
| "run w ((fresh, a, eventData) # rest) =
     run (processHookEvent a eventData (if fresh then freshProcess w else w)) rest"

text \<open>The engine before its first event: no state file, empty ledgers.\<close>

definition initialWorld :: "string \<Rightarrow> repoInfo \<Rightarrow> world" where
  "initialWorld uid r =
     \<lparr>userId = uid, repo = r, currentTurn = Map.empty, toolStartData = Map.empty,
      toolCounter = Map.empty, stateFiles = Map.empty, sessionsCsv = [], turnsCsv = [],
      commitsCsv = [], toolsCsv = [], costsCsv = [], promptsCsv = [], gitOpsCsv = [],
      compactionsCsv = [], stderr = []\<rparr>"

text \<open>The turn numbers of the rows of the turns ledger that belong to a session, in order.\<close>

definition turnNumbersOf :: "string \<Rightarrow> ledger \<Rightarrow> cell list" where
  "turnNumbersOf sessionId rows = map (\<lambda>row. row ! 2) (filter (\<lambda>row. row ! 0 = S sessionId) rows)"

text \<open>
  The in-flight entries of a session as the next handler finds them: those in memory, or
  those of the state file when the session is not in memory.
\<close>

definition inflightOf :: "string \<Rightarrow> world \<Rightarrow> inflight" where
  "inflightOf sessionId w =
     (case toolStartData (loadIfAbsent sessionId w) sessionId of None \<Rightarrow> [] | Some d \<Rightarrow> d)"

text \<open>
  The turn number a session's state file holds, and the one its in-memory entry holds.
\<close>

definition fileNumber :: "world \<Rightarrow> string \<Rightarrow> int option" where
  "fileNumber w s = map_option (\<lambda>f. number (fileCurrentTurn f)) (stateFiles w s)"

definition memNumber :: "world \<Rightarrow> string \<Rightarrow> int option" where
  "memNumber w s = map_option number (currentTurn w s)"

text \<open>
  The invariant behind the numbering of turns: for every session whose identifier is not
  the name of an inherited member, the turn rows written so far are numbered from 1 up to
  one less than the number in the state file (none when there is no state file) and the
  number in the file is at least 1; for every session, an in-memory entry agrees with the
  file.
\<close>

definition turnInvariant :: "world \<Rightarrow> bool" where
  "turnInvariant w \<longleftrightarrow>
     (\<forall>s. (s \<notin> set objectPrototypeNames \<longrightarrow>
            (case fileNumber w s of
               None \<Rightarrow> turnNumbersOf s (turnsCsv w) = []
             | Some n \<Rightarrow> 1 \<le> n \<and> turnNumbersOf s (turnsCsv w) = map I [1 .. n - 1]))
          \<and> (memNumber w s = None \<or> memNumber w s = fileNumber w s))"

text \<open>
  Well-formed in-flight entries: the keys are distinct, as the property names of an
  object are, and none is the empty string. The second invariant of the engine: every
  in-flight table, in memory and in a state file, is well formed.
\<close>

definition keysWellFormed :: "inflight \<Rightarrow> bool" where
  "keysWellFormed d \<longleftrightarrow> distinct (map fst d) \<and> [] \<notin> set (map fst d)"

definition inflightInvariant :: "world \<Rightarrow> bool" where
  "inflightInvariant w \<longleftrightarrow>
     (\<forall>s. (case toolStartData w s of None \<Rightarrow> True | Some d \<Rightarrow> keysWellFormed d)
          \<and> (case stateFiles w s of None \<Rightarrow> True
              | Some f \<Rightarrow> keysWellFormed (fileToolStartData f)))"

section \<open>Properties of the row format\<close>

lemma replaceQuotes_concat:
  "replaceQuotes s = concat (map (\<lambda>c. if c = dquote then [dquote, dquote] else [c]) s)"
  by (induction s) auto

text \<open>Outside quotes, text without commas and quotes is copied to the current field.\<close>

lemma parse_raw:
  "comma \<notin> set s \<Longrightarrow> dquote \<notin> set s \<Longrightarrow>
   parseCSVRow_loop (s @ rest) res cur False = parseCSVRow_loop rest res (cur @ s) False"
  by (induction s arbitrary: cur) auto

text \<open>
  Inside quotes, the doubled text followed by the closing quote yields the original text,
  provided the closing quote is not itself followed by a quote.
\<close>

lemma parse_quoted_body:
  "rest = [] \<or> hd rest \<noteq> dquote \<Longrightarrow>
   parseCSVRow_loop (replaceQuotes s @ dquote # rest) res cur True
     = parseCSVRow_loop rest res (cur @ s) False"
proof (induction s arbitrary: cur)
  case Nil
  then show ?case by (cases rest) auto
next
  case (Cons c cs)
  then show ?case by auto
qed

lemma parse_escapeCSV:
  assumes "rest = [] \<or> hd rest \<noteq> dquote"
  shows "parseCSVRow_loop (escapeCSV val @ rest) res cur False
           = parseCSVRow_loop rest res (cur @ fieldText val) False"
proof (cases val)
  case None
  then show ?thesis by (simp add: escapeCSV_def fieldText_def)
next
  case (Some v)
  show ?thesis
  proof (cases "comma \<in> set (neutralizeFormula v) \<or> dquote \<in> set (neutralizeFormula v)
                 \<or> newline \<in> set (neutralizeFormula v)")
    case True
    then have "escapeCSV val = dquote # replaceQuotes (neutralizeFormula v) @ [dquote]"
      using Some by (simp add: escapeCSV_def Let_def)
    then show ?thesis
      using parse_quoted_body [OF assms, of "neutralizeFormula v" res cur] Some
      by (cases "replaceQuotes (neutralizeFormula v) @ dquote # rest") (auto simp: fieldText_def)
  next
    case False
    then have "escapeCSV val = neutralizeFormula v"
      using Some by (simp add: escapeCSV_def Let_def)
    then show ?thesis
      using parse_raw [of "neutralizeFormula v" rest res cur] False Some
      by (simp add: fieldText_def)
  qed
qed

lemma parse_join:
  "vals \<noteq> [] \<Longrightarrow>
   parseCSVRow_loop (join comma (map escapeCSV vals)) res [] False = res @ map fieldText vals"
proof (induction vals arbitrary: res)
  case Nil
  then show ?case by simp
next
  case (Cons v vs)
  show ?case
  proof (cases vs)
    case Nil
    then show ?thesis using parse_escapeCSV [of "[]" v res "[]"] by simp
  next
    case (Cons w ws)
    have "parseCSVRow_loop (escapeCSV v @ comma # join comma (map escapeCSV vs)) res [] False
            = parseCSVRow_loop (comma # join comma (map escapeCSV vs)) res (fieldText v) False"
      using parse_escapeCSV [of "comma # join comma (map escapeCSV vs)" v res "[]"] by simp
    also have "\<dots> = parseCSVRow_loop (join comma (map escapeCSV vs)) (res @ [fieldText v]) [] False"
      by simp
    also have "\<dots> = (res @ [fieldText v]) @ map fieldText vs"
      using Cons.IH [of "res @ [fieldText v]"] Cons by simp
    finally show ?thesis using Cons by simp
  qed
qed

text \<open>Reading back a serialised row gives the neutralised text of every value.\<close>

lemma parse_build: "vals \<noteq> [] \<Longrightarrow> parseCSVRow (buildCSVRow vals) = map fieldText vals"
  by (simp add: parseCSVRow_def buildCSVRow_def parse_join)

text \<open>
  Claim C8. A value that begins with \<^verbatim>\<open>=\<close> is stored with an apostrophe in front of it
  (bare, or inside the quote wrapping when the value also needs quoting), and it reads
  back as the apostrophe followed by the value. A value that contains a comma, a double
  quote or a newline is stored between double quotes with every embedded double quote
  doubled, and reads back as the (neutralised) value.
\<close>

theorem escapeCSV_neutralizes_and_quotes:
  "(\<forall>rest. v = CHR ''='' # rest \<longrightarrow>
      (escapeCSV (Some v) = apostrophe # v
        \<or> escapeCSV (Some v) = dquote # replaceQuotes (apostrophe # v) @ [dquote])
      \<and> parseCSVRow (escapeCSV (Some v)) = [apostrophe # v])
   \<and> (comma \<in> set v \<or> dquote \<in> set v \<or> newline \<in> set v \<longrightarrow>
      escapeCSV (Some v) = dquote # replaceQuotes (neutralizeFormula v) @ [dquote]
      \<and> parseCSVRow (escapeCSV (Some v)) = [neutralizeFormula v])"
proof -
  have rd: "parseCSVRow (escapeCSV (Some v)) = [neutralizeFormula v]"
    using parse_build [of "[Some v]"] by (simp add: buildCSVRow_def fieldText_def)
  have eq: "\<And>rest. v = CHR ''='' # rest \<Longrightarrow> neutralizeFormula v = apostrophe # v"
    by (simp add: neutralizeFormula_def formulaTrigger_def)
  have sub: "set v \<subseteq> set (neutralizeFormula v)"
    by (auto simp: neutralizeFormula_def split: list.splits)
  show ?thesis
  proof (intro conjI allI impI)
    fix rest assume "v = CHR ''='' # rest"
    from eq [OF this] show "escapeCSV (Some v) = apostrophe # v
        \<or> escapeCSV (Some v) = dquote # replaceQuotes (apostrophe # v) @ [dquote]"
      by (simp add: escapeCSV_def Let_def)
  next
    fix rest assume "v = CHR ''='' # rest"
    from eq [OF this] rd show "parseCSVRow (escapeCSV (Some v)) = [apostrophe # v]" by simp
  next
    assume "comma \<in> set v \<or> dquote \<in> set v \<or> newline \<in> set v"
    with sub show "escapeCSV (Some v) = dquote # replaceQuotes (neutralizeFormula v) @ [dquote]"
      by (auto simp: escapeCSV_def Let_def)
  next
    show "parseCSVRow (escapeCSV (Some v)) = [neutralizeFormula v]" by (rule rd)
  qed
qed

theorem escapeCSV_neutralizes_and_quotes_witness:
  "comma \<in> set ''=SUM(A1,A2)''
   \<and> escapeCSV (Some ''=SUM(A1,A2)'') = dquote # apostrophe # ''=SUM(A1,A2)'' @ [dquote]
   \<and> parseCSVRow (escapeCSV (Some ''=SUM(A1,A2)'')) = [apostrophe # ''=SUM(A1,A2)'']"
  using escapeCSV_neutralizes_and_quotes [of "''=SUM(A1,A2)''"]
  by (simp add: neutralizeFormula_def formulaTrigger_def escapeCSV_def parseCSVRow_def)

text \<open>
  Claim C10. For a non-empty list of strings none of which begins with a formula-trigger
  character, parsing the row built from the list returns the list, whatever commas,
  double quotes and newlines the strings contain.
\<close>

theorem parseCSVRow_buildCSVRow_roundtrip:
  assumes "vals \<noteq> []" and "\<forall>v \<in> set vals. v = [] \<or> \<not> formulaTrigger (hd v)"
  shows "parseCSVRow (buildCSVRow (map Some vals)) = vals"
proof -
  have "map fieldText (map Some vals) = vals"
    using assms(2)
    by (induction vals) (auto simp: fieldText_def neutralizeFormula_def split: list.splits)
  then show ?thesis using parse_build [of "map Some vals"] assms(1) by simp
qed

theorem parseCSVRow_buildCSVRow_roundtrip_witness:
  "[''a,b'', ''say '' @ [dquote] @ ''hi'' @ [dquote], ''x'' @ [newline] @ ''y'', ''''] \<noteq> []
   \<and> list_all (\<lambda>v. v = [] \<or> \<not> formulaTrigger (hd v))
         [''a,b'', ''say '' @ [dquote] @ ''hi'' @ [dquote], ''x'' @ [newline] @ ''y'', '''']
   \<and> parseCSVRow (buildCSVRow (map Some
          [''a,b'', ''say '' @ [dquote] @ ''hi'' @ [dquote], ''x'' @ [newline] @ ''y'', '''']))
        = [''a,b'', ''say '' @ [dquote] @ ''hi'' @ [dquote], ''x'' @ [newline] @ ''y'', '''']"
  using parseCSVRow_buildCSVRow_roundtrip
    [of "[''a,b'', ''say '' @ [dquote] @ ''hi'' @ [dquote], ''x'' @ [newline] @ ''y'', '''']"]
  by (simp add: formulaTrigger_def)

section \<open>Properties of the classifier\<close>

text \<open>
  On the example prompt the bug-fix group does match (the words \<^verbatim>\<open>fix\<close> and
  \<^verbatim>\<open>broken\<close>), but the feature-development group is tested before it and matches the
  word \<^verbatim>\<open>add\<close>.
\<close>

lemma example_prompt_groups:
  "regexTest featureDev ''fix the broken login validation and add a test''
   \<and> regexTest bugFix ''fix the broken login validation and add a test''
   \<and> regexTest testing ''fix the broken login validation and add a test''"
  by code_simp

text \<open>
  Claim C4, as stated: the prompt \<^verbatim>\<open>fix the broken login validation and add a test\<close> is
  classified as category \<^verbatim>\<open>bug_fix\<close>, subcategory \<^verbatim>\<open>with_tests\<close>. The classifier does not
  return that.
\<close>

theorem categorizePrompt_example_not_bug_fix:
  "categorizePrompt ''fix the broken login validation and add a test''
     \<noteq> \<lparr>category = ''bug_fix'', subcategory = ''with_tests''\<rparr>"
  by code_simp

text \<open>
  Claim C4, amended: the prompt \<^verbatim>\<open>fix the broken login validation and add a test\<close> is
  classified as category \<^verbatim>\<open>feature_development\<close>, subcategory \<^verbatim>\<open>with_tests\<close>.
\<close>

theorem categorizePrompt_example:
  "categorizePrompt ''fix the broken login validation and add a test''
     = \<lparr>category = ''feature_development'', subcategory = ''with_tests''\<rparr>"
  by code_simp

section \<open>Properties of the cost calculator\<close>

lemma PRICING_cases:
  "map_of PRICING m = Some mp \<Longrightarrow>
     (m = ''eu.anthropic.claude-sonnet-4-5-20250929-v1:0'' \<and>
      mp = Tiered \<lparr>inputRate = 33/10, outputRate = 33/2, cacheWriteRate = 33/8, cacheReadRate = 33/100\<rparr>
                \<lparr>inputRate = 66/10, outputRate = 99/4, cacheWriteRate = 33/4, cacheReadRate = 66/100\<rparr>)
   \<or> (m = ''eu.anthropic.claude-3-haiku-20240307-v1:0'' \<and>
      mp = Tiered \<lparr>inputRate = 1/4, outputRate = 5/4, cacheWriteRate = 5/16, cacheReadRate = 1/40\<rparr>
                \<lparr>inputRate = 1/2, outputRate = 15/8, cacheWriteRate = 5/8, cacheReadRate = 1/20\<rparr>)"
  by (auto simp: PRICING_def split: if_splits)

text \<open>An unrecognised model is priced as the default model, and the default is in the table.\<close>

lemma calculateTokenCost_fallback:
  "map_of PRICING m = None \<Longrightarrow>
     calculateTokenCost u (Some m) = calculateTokenCost u (Some DEFAULT_MODEL)
     \<and> calculateTokenCost u None = calculateTokenCost u (Some DEFAULT_MODEL)
     \<and> calculateTokenCost u (Some DEFAULT_MODEL) \<noteq> None"
  by (simp add: calculateTokenCost_def Let_def PRICING_def DEFAULT_MODEL_def)

lemma calculateTokenCost_tiered:
  assumes "map_of PRICING m = Some (Tiered std ext)"
  shows "calculateTokenCost u (Some m) =
           Some (perMillion (if totalInputTokens u \<le> 200000 then std else ext) u)"
  using assms
  by (simp add: calculateTokenCost_def Let_def perMillion_def EXTENDED_CONTEXT_THRESHOLD_def
        add_divide_distrib)

lemma extended_rates_greater:
  assumes "map_of PRICING m = Some (Tiered std ext)"
  shows "inputRate std < inputRate ext \<and> outputRate std < outputRate ext
         \<and> cacheWriteRate std < cacheWriteRate ext \<and> cacheReadRate std < cacheReadRate ext"
  using PRICING_cases [OF assms] by auto

text \<open>
  Claim C3. For every usage tuple and every model of the pricing table with a standard and
  an extended tier: with at most 200,000 total input tokens (input, cache-write and
  cache-read together) the four category costs and their total are the ones at the
  standard rates, with more than 200,000 the ones at the extended rates; each extended
  rate is strictly greater than the standard rate of the same category, so that every
  category with a positive token count costs strictly more at the extended tier.
\<close>

theorem calculateTokenCost_tier_selection:
  assumes "map_of PRICING m = Some (Tiered std ext)"
  shows "(totalInputTokens u \<le> 200000 \<longrightarrow>
            calculateTokenCost u (Some m) = Some (perMillion std u))
       \<and> (totalInputTokens u > 200000 \<longrightarrow>
            calculateTokenCost u (Some m) = Some (perMillion ext u))
       \<and> inputRate std < inputRate ext \<and> outputRate std < outputRate ext
       \<and> cacheWriteRate std < cacheWriteRate ext \<and> cacheReadRate std < cacheReadRate ext
       \<and> (0 < orZero (input_tokens u) \<longrightarrow>
            input_cost_usd (perMillion std u) < input_cost_usd (perMillion ext u))
       \<and> (0 < orZero (output_tokens u) \<longrightarrow>
            output_cost_usd (perMillion std u) < output_cost_usd (perMillion ext u))
       \<and> (0 < orZero (cache_creation_input_tokens u) \<longrightarrow>
            cache_write_cost_usd (perMillion std u) < cache_write_cost_usd (perMillion ext u))
       \<and> (0 < orZero (cache_read_input_tokens u) \<longrightarrow>
            cache_read_cost_usd (perMillion std u) < cache_read_cost_usd (perMillion ext u))"
proof -
  note sel = calculateTokenCost_tiered [OF assms, of u]
  note gt = extended_rates_greater [OF assms]
  have scale: "\<And>n (a::rat) b. 0 < n \<Longrightarrow> a < b \<Longrightarrow> of_int n * a / 1000000 < of_int n * b / 1000000"
    by (simp add: divide_strict_right_mono)
  show ?thesis
    using sel gt by (auto simp: perMillion_def intro: scale)
qed

theorem calculateTokenCost_tier_selection_witness:
  "map_of PRICING ''eu.anthropic.claude-3-haiku-20240307-v1:0''
     = Some (Tiered \<lparr>inputRate = 1/4, outputRate = 5/4, cacheWriteRate = 5/16, cacheReadRate = 1/40\<rparr>
                    \<lparr>inputRate = 1/2, outputRate = 15/8, cacheWriteRate = 5/8, cacheReadRate = 1/20\<rparr>)
   \<and> totalInputTokens \<lparr>input_tokens = Some 150000, output_tokens = Some 2000,
         cache_creation_input_tokens = Some 40000, cache_read_input_tokens = Some 20000\<rparr> = 210000
   \<and> calculateTokenCost \<lparr>input_tokens = Some 150000, output_tokens = Some 2000,
         cache_creation_input_tokens = Some 40000, cache_read_input_tokens = Some 20000\<rparr>
         (Some ''eu.anthropic.claude-3-haiku-20240307-v1:0'')
       = Some \<lparr>input_cost_usd = 3/40, output_cost_usd = 3/800, cache_write_cost_usd = 1/40,
               cache_read_cost_usd = 1/1000, total_cost_usd = 419/4000\<rparr>
   \<and> totalInputTokens \<lparr>input_tokens = Some 150000, output_tokens = Some 2000,
         cache_creation_input_tokens = Some 40000, cache_read_input_tokens = Some 10000\<rparr> = 200000
   \<and> calculateTokenCost \<lparr>input_tokens = Some 150000, output_tokens = Some 2000,
         cache_creation_input_tokens = Some 40000, cache_read_input_tokens = Some 10000\<rparr>
         (Some ''eu.anthropic.claude-3-haiku-20240307-v1:0'')
       = Some \<lparr>input_cost_usd = 3/80, output_cost_usd = 1/400, cache_write_cost_usd = 1/80,
               cache_read_cost_usd = 1/4000, total_cost_usd = 211/4000\<rparr>"
proof -
  have h: "map_of PRICING ''eu.anthropic.claude-3-haiku-20240307-v1:0''
     = Some (Tiered \<lparr>inputRate = 1/4, outputRate = 5/4, cacheWriteRate = 5/16, cacheReadRate = 1/40\<rparr>
                    \<lparr>inputRate = 1/2, outputRate = 15/8, cacheWriteRate = 5/8, cacheReadRate = 1/20\<rparr>)"
    by (simp add: PRICING_def)
  show ?thesis
    using h
      calculateTokenCost_tier_selection [OF h, of "\<lparr>input_tokens = Some 150000,
        output_tokens = Some 2000, cache_creation_input_tokens = Some 40000,
        cache_read_input_tokens = Some 20000\<rparr>"]
      calculateTokenCost_tier_selection [OF h, of "\<lparr>input_tokens = Some 150000,
        output_tokens = Some 2000, cache_creation_input_tokens = Some 40000,
        cache_read_input_tokens = Some 10000\<rparr>"]
    by (simp add: totalInputTokens_def orZero_def perMillion_def)
qed

section \<open>Properties of the schema migration\<close>

















text \<open>Reading a row by \<^verbatim>\<open>indexOf\<close> is reading it by column name.\<close>

lemma indexOf_ge: "- 1 \<le> indexOf xs x"
  by (induction xs) (auto simp: Let_def)





















text \<open>
  A row that spans lines. \<^verbatim>\<open>escapeCSV\<close> quote-wraps a value that contains a newline, so
  the writer itself produces such rows; \<^verbatim>\<open>migrateCSVIfNeeded\<close> splits the file at every
  newline before it parses, and the one data row below (branch \<^verbatim>\<open>ma\<close>, newline,
  \<^verbatim>\<open>in\<close>) comes out as two rows, with the time stamp and the success flag no longer in
  their columns. Here the code departs from parsing every existing row respecting quoting.
\<close>

lemma migrateCSVIfNeeded_splits_row_spanning_lines:
  "csvRecords
     (''session_id,user_id,operation_type,branch,timestamp,success'' @ [newline]
        @ buildCSVRow [Some ''s1'', Some ''dev'', Some ''push'', Some (''ma'' @ [newline] @ ''in''),
             Some ''1700'', Some ''1''] @ [newline])
     = [''session_id,user_id,operation_type,branch,timestamp,success'',
        ''s1,dev,push,'' @ [dquote] @ ''ma'' @ [newline] @ ''in'' @ [dquote] @ '',1700,1'']
   \<and> map parseCSVRow (csvRecords (fileContent (migrateCSVIfNeeded
       (''session_id,user_id,operation_type,branch,timestamp,success'' @ [newline]
          @ buildCSVRow [Some ''s1'', Some ''dev'', Some ''push'', Some (''ma'' @ [newline] @ ''in''),
               Some ''1700'', Some ''1''] @ [newline])
       ''session_id,user_id,operation_type,branch,remote,timestamp,success'')))
     = [[''session_id'', ''user_id'', ''operation_type'', ''branch'', ''remote'', ''timestamp'',
         ''success''],
        [''s1'', ''dev'', ''push'', ''ma'', [], [], []],
        [''in,1700,1'', [], [], [], [], [], []]]"
  by code_simp

section \<open>Properties of the dispatcher and of the state machine\<close>

text \<open>
  Claim C9. An event that lacks the event-kind field, names a kind outside the five known
  ones, or is a \<^verbatim>\<open>PreToolUse\<close>/\<^verbatim>\<open>PostToolUse\<close> event without a tool name is rejected by
  \<^verbatim>\<open>validateEventData\<close>; \<^verbatim>\<open>processHookEvent\<close> then returns the world it was given with
  one more line on the error stream, the validation error: no ledger, no state file and
  no in-memory table changes.
\<close>

theorem processHookEvent_invalid_event:
  assumes "hook_event_name ev = None
           \<or> (\<exists>name. hook_event_name ev = Some name \<and> name \<notin> set validEvents)
           \<or> ((hook_event_name ev = Some ''PreToolUse'' \<or> hook_event_name ev = Some ''PostToolUse'')
               \<and> \<not> truthy (tool_name ev))"
  shows "\<exists>err. validateEventData (EventObject ev) = Invalid err
           \<and> processHookEvent a (EventObject ev) w
               = w\<lparr>stderr := stderr w @ [''[Analytics Error] Invalid event data: '' @ err]\<rparr>"
  using assms
  by (auto simp: validateEventData_def processHookEvent_def validEvents_def
           split: option.splits)

theorem processHookEvent_invalid_event_witness:
  "processHookEvent
     \<lparr>now = 1700000000000, generatedSessionId = ''session_1'', transcriptFile = Map.empty,
      gitOperationRow = (\<lambda>c. None), gitCommitRow = (\<lambda>c. None)\<rparr>
     (EventObject
       \<lparr>hook_event_name = Some ''PostToolUse'', tool_name = None, session_id = ''s1'',
        prompt = None, tool_input_size = 2, tool_input_command = None, tool_output_size = 2,
        success = True, transcript_path = None, was_interrupted = False, tokens_before = None,
        context_window_before = None, tokens_after = None, context_window_after = None,
        compaction_type = None, event_type = None, trigger_reason = None,
        event_reason = None\<rparr>)
     (initialWorld ''dev'' \<lparr>repoUrl = ''u'', repoName = ''n'', repoBranch = ''main'',
        repoHeadCommit = ''abc''\<rparr>)
   = (initialWorld ''dev'' \<lparr>repoUrl = ''u'', repoName = ''n'', repoBranch = ''main'',
        repoHeadCommit = ''abc''\<rparr>)
       \<lparr>stderr := [''[Analytics Error] Invalid event data: PostToolUse requires tool_name'']\<rparr>"
  using processHookEvent_invalid_event
    [of "\<lparr>hook_event_name = Some ''PostToolUse'', tool_name = None, session_id = ''s1'',
        prompt = None, tool_input_size = 2, tool_input_command = None, tool_output_size = 2,
        success = True, transcript_path = None, was_interrupted = False, tokens_before = None,
        context_window_before = None, tokens_after = None, context_window_after = None,
        compaction_type = None, event_type = None, trigger_reason = None,
        event_reason = None\<rparr>"
        "\<lparr>now = 1700000000000, generatedSessionId = ''session_1'', transcriptFile = Map.empty,
      gitOperationRow = (\<lambda>c. None), gitCommitRow = (\<lambda>c. None)\<rparr>"
        "initialWorld ''dev'' \<lparr>repoUrl = ''u'', repoName = ''n'', repoBranch = ''main'',
        repoHeadCommit = ''abc''\<rparr>"]
  by (simp add: truthy_def validateEventData_def validEvents_def initialWorld_def)

text \<open>Loading is idempotent, and touches neither files nor ledgers.\<close>

lemma loadIfAbsent_idem: "loadIfAbsent sid (loadIfAbsent sid w) = loadIfAbsent sid w"
  by (simp add: loadIfAbsent_def loadTurnState_def split: option.splits)

lemma loadIfAbsent_present: "currentTurn w sid \<noteq> None \<Longrightarrow> loadIfAbsent sid w = w"
  by (auto simp: loadIfAbsent_def)

lemma loadIfAbsent_frame:
  "stateFiles (loadIfAbsent sid w) = stateFiles w"
  "userId (loadIfAbsent sid w) = userId w"
  "repo (loadIfAbsent sid w) = repo w"
  "sessionsCsv (loadIfAbsent sid w) = sessionsCsv w"
  "turnsCsv (loadIfAbsent sid w) = turnsCsv w"
  "commitsCsv (loadIfAbsent sid w) = commitsCsv w"
  "toolsCsv (loadIfAbsent sid w) = toolsCsv w"
  "costsCsv (loadIfAbsent sid w) = costsCsv w"
  "promptsCsv (loadIfAbsent sid w) = promptsCsv w"
  "gitOpsCsv (loadIfAbsent sid w) = gitOpsCsv w"
  "compactionsCsv (loadIfAbsent sid w) = compactionsCsv w"
  "stderr (loadIfAbsent sid w) = stderr w"
  by (simp_all add: loadIfAbsent_def loadTurnState_def split: option.splits)

lemma loadIfAbsent_stderr:
  "loadIfAbsent sid (w\<lparr>stderr := e\<rparr>) = (loadIfAbsent sid w)\<lparr>stderr := e\<rparr>"
  by (simp add: loadIfAbsent_def loadTurnState_def split: option.splits)

lemma findMatching_None:
  "findMatching tname d = None \<longleftrightarrow> (\<forall>(k, e) \<in> set d. toolName e \<noteq> tname)"
  by (auto simp: findMatching_def find_None_iff)

text \<open>
  Claim C5. A \<^verbatim>\<open>PostToolUse\<close> event whose tool name matches no in-flight entry of its
  session appends nothing to the tools ledger (nor to any other ledger), changes no state
  file, and returns normally after one warning on the error stream. In memory the only
  possible change is that the session's persisted state has been loaded; the in-flight
  entries the next handler finds are the same as before.
\<close>

theorem handleToolEnd_no_matching_start:
  assumes "hook_event_name ev = Some ''PostToolUse''"
      and "tool_name ev = Some tname" and "tname \<noteq> []"
      and "\<forall>(key, e) \<in> set (inflightOf (session_id ev) w). toolName e \<noteq> tname"
  shows "processHookEvent a (EventObject ev) w
           = (loadIfAbsent (session_id ev) w)
               \<lparr>stderr := stderr w @
                  [''[Analytics Warning] No matching tool start found for tool: '' @ tname
                     @ '', session: '' @ session_id ev @ ''. Tool completion data dropped.'']\<rparr>
       \<and> toolsCsv (processHookEvent a (EventObject ev) w) = toolsCsv w
       \<and> sessionsCsv (processHookEvent a (EventObject ev) w) = sessionsCsv w
       \<and> turnsCsv (processHookEvent a (EventObject ev) w) = turnsCsv w
       \<and> commitsCsv (processHookEvent a (EventObject ev) w) = commitsCsv w
       \<and> costsCsv (processHookEvent a (EventObject ev) w) = costsCsv w
       \<and> promptsCsv (processHookEvent a (EventObject ev) w) = promptsCsv w
       \<and> gitOpsCsv (processHookEvent a (EventObject ev) w) = gitOpsCsv w
       \<and> compactionsCsv (processHookEvent a (EventObject ev) w) = compactionsCsv w
       \<and> stateFiles (processHookEvent a (EventObject ev) w) = stateFiles w
       \<and> inflightOf (session_id ev) (processHookEvent a (EventObject ev) w)
           = inflightOf (session_id ev) w
       \<and> (currentTurn w (session_id ev) \<noteq> None \<longrightarrow>
           processHookEvent a (EventObject ev) w
             = w\<lparr>stderr := stderr w @
                  [''[Analytics Warning] No matching tool start found for tool: '' @ tname
                     @ '', session: '' @ session_id ev @ ''. Tool completion data dropped.'']\<rparr>)"
proof -
  let ?sid = "session_id ev"
  let ?msg = "''[Analytics Warning] No matching tool start found for tool: '' @ tname
                     @ '', session: '' @ ?sid @ ''. Tool completion data dropped.''"
  have valid: "validateEventData (EventObject ev) = Valid"
    using assms(1-3) by (simp add: validateEventData_def validEvents_def truthy_def)
  have disp: "processHookEvent a (EventObject ev) w = handleToolEnd a ?sid tname ev w"
    using assms(1-3) valid by (simp add: processHookEvent_def truthy_def)
  have nomatch: "(case toolStartData (loadIfAbsent ?sid w) ?sid of
                    None \<Rightarrow> None | Some d \<Rightarrow> findMatching tname d) = None"
  proof (cases "toolStartData (loadIfAbsent ?sid w) ?sid")
    case None
    then show ?thesis by simp
  next
    case (Some d)
    then have "inflightOf ?sid w = d" by (simp add: inflightOf_def)
    with assms(4) have "findMatching tname d = None" by (simp only: findMatching_None)
    with Some show ?thesis by simp
  qed
  have hte: "handleToolEnd a ?sid tname ev w
               = (loadIfAbsent ?sid w)\<lparr>stderr := stderr w @ [?msg]\<rparr>"
    unfolding handleToolEnd_def Let_def nomatch by (simp add: loadIfAbsent_frame)
  have main: "processHookEvent a (EventObject ev) w
           = (loadIfAbsent ?sid w)\<lparr>stderr := stderr w @ [?msg]\<rparr>"
    by (simp only: disp hte)
  have ledgers: "toolsCsv (processHookEvent a (EventObject ev) w) = toolsCsv w"
      "sessionsCsv (processHookEvent a (EventObject ev) w) = sessionsCsv w"
      "turnsCsv (processHookEvent a (EventObject ev) w) = turnsCsv w"
      "commitsCsv (processHookEvent a (EventObject ev) w) = commitsCsv w"
      "costsCsv (processHookEvent a (EventObject ev) w) = costsCsv w"
      "promptsCsv (processHookEvent a (EventObject ev) w) = promptsCsv w"
      "gitOpsCsv (processHookEvent a (EventObject ev) w) = gitOpsCsv w"
      "compactionsCsv (processHookEvent a (EventObject ev) w) = compactionsCsv w"
      "stateFiles (processHookEvent a (EventObject ev) w) = stateFiles w"
    by (simp_all add: main loadIfAbsent_frame)
  have infl: "inflightOf ?sid (processHookEvent a (EventObject ev) w) = inflightOf ?sid w"
    by (simp add: main inflightOf_def loadIfAbsent_stderr loadIfAbsent_idem)
  have mem: "currentTurn w ?sid \<noteq> None \<longrightarrow>
      processHookEvent a (EventObject ev) w = w\<lparr>stderr := stderr w @ [?msg]\<rparr>"
    by (simp add: main loadIfAbsent_present)
  from main ledgers infl mem show ?thesis by (intro conjI)
qed

theorem handleToolEnd_no_matching_start_witness:
  "processHookEvent
     \<lparr>now = 1700000000000, generatedSessionId = ''session_1'', transcriptFile = Map.empty,
      gitOperationRow = (\<lambda>c. None), gitCommitRow = (\<lambda>c. None)\<rparr>
     (EventObject
       \<lparr>hook_event_name = Some ''PostToolUse'', tool_name = Some ''Bash'', session_id = ''s1'',
        prompt = None, tool_input_size = 2, tool_input_command = None, tool_output_size = 2,
        success = True, transcript_path = None, was_interrupted = False, tokens_before = None,
        context_window_before = None, tokens_after = None, context_window_after = None,
        compaction_type = None, event_type = None, trigger_reason = None,
        event_reason = None\<rparr>)
     (initialWorld ''dev'' \<lparr>repoUrl = ''u'', repoName = ''n'', repoBranch = ''main'',
        repoHeadCommit = ''abc''\<rparr>)
   = (initialWorld ''dev'' \<lparr>repoUrl = ''u'', repoName = ''n'', repoBranch = ''main'',
        repoHeadCommit = ''abc''\<rparr>)
       \<lparr>stderr := [''[Analytics Warning] No matching tool start found for tool: Bash, session: s1. Tool completion data dropped.'']\<rparr>"
  using handleToolEnd_no_matching_start
    [of "\<lparr>hook_event_name = Some ''PostToolUse'', tool_name = Some ''Bash'', session_id = ''s1'',
        prompt = None, tool_input_size = 2, tool_input_command = None, tool_output_size = 2,
        success = True, transcript_path = None, was_interrupted = False, tokens_before = None,
        context_window_before = None, tokens_after = None, context_window_after = None,
        compaction_type = None, event_type = None, trigger_reason = None,
        event_reason = None\<rparr>"
        "''Bash''"
        "initialWorld ''dev'' \<lparr>repoUrl = ''u'', repoName = ''n'', repoBranch = ''main'',
        repoHeadCommit = ''abc''\<rparr>"
        "\<lparr>now = 1700000000000, generatedSessionId = ''session_1'', transcriptFile = Map.empty,
      gitOperationRow = (\<lambda>c. None), gitCommitRow = (\<lambda>c. None)\<rparr>"]
  by (simp add: inflightOf_def loadIfAbsent_def loadTurnState_def initialWorld_def)

text \<open>Saving and the git trackers: what they leave alone.\<close>

lemma saveTurnState_frame:
  "currentTurn (saveTurnState sid w) = currentTurn w"
  "toolStartData (saveTurnState sid w) = toolStartData w"
  "toolCounter (saveTurnState sid w) = toolCounter w"
  "userId (saveTurnState sid w) = userId w"
  "repo (saveTurnState sid w) = repo w"
  "sessionsCsv (saveTurnState sid w) = sessionsCsv w"
  "turnsCsv (saveTurnState sid w) = turnsCsv w"
  "commitsCsv (saveTurnState sid w) = commitsCsv w"
  "toolsCsv (saveTurnState sid w) = toolsCsv w"
  "costsCsv (saveTurnState sid w) = costsCsv w"
  "promptsCsv (saveTurnState sid w) = promptsCsv w"
  "gitOpsCsv (saveTurnState sid w) = gitOpsCsv w"
  "compactionsCsv (saveTurnState sid w) = compactionsCsv w"
  "stderr (saveTurnState sid w) = stderr w"
  by (simp_all add: saveTurnState_def split: option.splits)

lemma saveTurnState_files:
  "stateFiles (saveTurnState sid w) s =
     (if s = sid then
        (case currentTurn w sid of
           None \<Rightarrow> stateFiles w sid
         | Some t \<Rightarrow>
             Some \<lparr>fileCurrentTurn = t,
                   fileToolStartData = (case toolStartData w sid of None \<Rightarrow> [] | Some d \<Rightarrow> d),
                   fileToolCounter = (case toolCounter w sid of None \<Rightarrow> 0 | Some c \<Rightarrow> c)\<rparr>)
      else stateFiles w s)"
  by (simp add: saveTurnState_def split: option.splits)

lemma handleGitCommand_frame:
  "currentTurn (handleGitCommand a c w) = currentTurn w"
  "toolStartData (handleGitCommand a c w) = toolStartData w"
  "toolCounter (handleGitCommand a c w) = toolCounter w"
  "stateFiles (handleGitCommand a c w) = stateFiles w"
  "userId (handleGitCommand a c w) = userId w"
  "sessionsCsv (handleGitCommand a c w) = sessionsCsv w"
  "turnsCsv (handleGitCommand a c w) = turnsCsv w"
  "toolsCsv (handleGitCommand a c w) = toolsCsv w"
  "costsCsv (handleGitCommand a c w) = costsCsv w"
  "promptsCsv (handleGitCommand a c w) = promptsCsv w"
  "gitOpsCsv (handleGitCommand a c w) = gitOpsCsv w"
  "compactionsCsv (handleGitCommand a c w) = compactionsCsv w"
  "stderr (handleGitCommand a c w) = stderr w"
  by (simp_all add: handleGitCommand_def split: option.splits)

lemma handleGitOperations_frame:
  "currentTurn (handleGitOperations a c w) = currentTurn w"
  "toolStartData (handleGitOperations a c w) = toolStartData w"
  "toolCounter (handleGitOperations a c w) = toolCounter w"
  "stateFiles (handleGitOperations a c w) = stateFiles w"
  "userId (handleGitOperations a c w) = userId w"
  "sessionsCsv (handleGitOperations a c w) = sessionsCsv w"
  "turnsCsv (handleGitOperations a c w) = turnsCsv w"
  "commitsCsv (handleGitOperations a c w) = commitsCsv w"
  "toolsCsv (handleGitOperations a c w) = toolsCsv w"
  "costsCsv (handleGitOperations a c w) = costsCsv w"
  "promptsCsv (handleGitOperations a c w) = promptsCsv w"
  "compactionsCsv (handleGitOperations a c w) = compactionsCsv w"
  "stderr (handleGitOperations a c w) = stderr w"
  by (simp_all add: handleGitOperations_def split: option.splits)

text \<open>When the session is not in memory after loading, it has no state file.\<close>

lemma loadIfAbsent_absent:
  "currentTurn (loadIfAbsent sid w) sid = None \<Longrightarrow> stateFiles w sid = None"
  by (auto simp: loadIfAbsent_def loadTurnState_def split: option.splits if_splits)

text \<open>Searching the reversed list finds the last entry that satisfies the test.\<close>

lemma find_append:
  "find P (xs @ ys) = (case find P xs of None \<Rightarrow> find P ys | Some x \<Rightarrow> Some x)"
  by (induction xs) auto

lemma find_rev_last:
  assumes "i < length d" and "P (d ! i)" and "\<forall>j. i < j \<and> j < length d \<longrightarrow> \<not> P (d ! j)"
  shows "find P (rev d) = Some (d ! i)"
proof -
  have split: "d = take i d @ d ! i # drop (Suc i) d"
    using assms(1) by (simp add: id_take_nth_drop)
  have "\<forall>x \<in> set (drop (Suc i) d). \<not> P x"
  proof
    fix x assume "x \<in> set (drop (Suc i) d)"
    then obtain n where "n < length (drop (Suc i) d)" and "x = drop (Suc i) d ! n"
      by (auto simp: in_set_conv_nth)
    then have "x = d ! (Suc i + n)" and "Suc i + n < length d" by auto
    with assms(3) show "\<not> P x" by auto
  qed
  then have none: "find P (rev (drop (Suc i) d)) = None"
    by (simp add: find_None_iff)
  have "rev d = rev (drop (Suc i) d) @ d ! i # rev (take i d)"
    by (subst split) simp
  then show ?thesis using none assms(2) by (simp add: find_append)
qed

text \<open>With distinct keys, deleting the key of an entry removes that entry and no other.\<close>

lemma delete_nth_distinct:
  "distinct (map fst d) \<Longrightarrow> i < length d \<Longrightarrow>
     AList.delete (fst (d ! i)) d = take i d @ drop (Suc i) d"
proof (induction d arbitrary: i)
  case Nil
  then show ?case by simp
next
  case (Cons x xs)
  show ?case
  proof (cases i)
    case 0
    have notin: "fst x \<notin> set (map fst xs)" using Cons.prems(1) by simp
    have "\<forall>p \<in> set xs. fst p \<noteq> fst x"
    proof
      fix p assume "p \<in> set xs"
      then have "fst p \<in> set (map fst xs)" by (simp only: set_map imageI)
      with notin show "fst p \<noteq> fst x" by metis
    qed
    then have "AList.delete (fst x) xs = xs"
      by (auto simp: AList.delete_eq filter_id_conv case_prod_beta)
    with 0 show ?thesis by (simp add: AList.delete_eq case_prod_beta)
  next
    case (Suc j)
    with Cons.prems have j: "j < length xs" by simp
    have notin: "fst x \<notin> set (map fst xs)" using Cons.prems(1) by simp
    from j have "fst (xs ! j) \<in> set (map fst xs)" by (simp only: set_map imageI nth_mem)
    with notin have ne: "fst (xs ! j) \<noteq> fst x" by metis
    have "distinct (map fst xs)" using Cons.prems(1) by simp
    from Cons.IH [OF this j] Suc ne show ?thesis
      by (simp add: AList.delete_eq case_prod_beta)
  qed
qed

text \<open>\<^verbatim>\<open>handleToolEnd\<close> when the search finds an entry under a non-empty key.\<close>

lemma handleToolEnd_found:
  assumes "toolStartData (loadIfAbsent sid w) sid = Some d"
      and "findMatching tname d = Some (k, e)" and "k \<noteq> []"
  shows "toolsCsv (handleToolEnd a sid tname ev w) = toolsCsv w @
           [[S sid, S (userId w), I (turnNumber e), S tname, I (toolStartTime e), I (now a),
             S (if success ev then ''1'' else ''0''), I (now a - toolStartTime e),
             I (inputSize e), I (tool_output_size ev)]]"
    and "toolStartData (handleToolEnd a sid tname ev w) sid = Some (AList.delete k d)"
    and "currentTurn (handleToolEnd a sid tname ev w) = currentTurn (loadIfAbsent sid w)"
    and "stateFiles (handleToolEnd a sid tname ev w) sid =
           (case currentTurn (loadIfAbsent sid w) sid of
              None \<Rightarrow> stateFiles w sid
            | Some t \<Rightarrow>
                Some \<lparr>fileCurrentTurn = t, fileToolStartData = AList.delete k d,
                      fileToolCounter =
                        (case toolCounter (loadIfAbsent sid w) sid of None \<Rightarrow> 0 | Some c \<Rightarrow> c)\<rparr>)"
  using assms
  by (simp_all add: handleToolEnd_def Let_def saveTurnState_frame saveTurnState_files
        handleGitCommand_frame loadIfAbsent_frame split: option.splits)

text \<open>
  Claim C2. On a \<^verbatim>\<open>PostToolUse\<close> event for tool \<open>tname\<close> in a session whose in-flight
  entries \<open>d\<close> (keys distinct and not empty, as they are in every state the engine
  reaches from its initial state) contain an entry of that tool name, let \<open>i\<close> be the
  position of the last such entry in insertion order. The
  tools ledger gains exactly one row, whose turn number, start time and input size are
  those stored in entry \<open>i\<close> and whose processing time is the event time minus the
  stored start time; entry \<open>i\<close> is removed from the in-flight entries, in memory and in
  the state file, and all other entries stay, in their order.
\<close>

theorem handleToolEnd_matches_most_recent:
  assumes "hook_event_name ev = Some ''PostToolUse''"
      and "tool_name ev = Some tname" and "tname \<noteq> []"
      and "d = inflightOf (session_id ev) w" and "distinct (map fst d)"
      and "i < length d" and "toolName (snd (d ! i)) = tname" and "fst (d ! i) \<noteq> []"
      and "\<forall>j. i < j \<and> j < length d \<longrightarrow> toolName (snd (d ! j)) \<noteq> tname"
  shows "toolsCsv (processHookEvent a (EventObject ev) w) = toolsCsv w @
           [[S (session_id ev), S (userId w), I (turnNumber (snd (d ! i))), S tname,
             I (toolStartTime (snd (d ! i))), I (now a),
             S (if success ev then ''1'' else ''0''), I (now a - toolStartTime (snd (d ! i))),
             I (inputSize (snd (d ! i))), I (tool_output_size ev)]]
       \<and> toolStartData (processHookEvent a (EventObject ev) w) (session_id ev)
           = Some (take i d @ drop (Suc i) d)
       \<and> inflightOf (session_id ev) (processHookEvent a (EventObject ev) w)
           = take i d @ drop (Suc i) d
       \<and> (case stateFiles (processHookEvent a (EventObject ev) w) (session_id ev) of
             None \<Rightarrow> stateFiles w (session_id ev) = None
           | Some f \<Rightarrow> fileToolStartData f = take i d @ drop (Suc i) d)"
proof -
  let ?sid = "session_id ev"
  let ?w' = "processHookEvent a (EventObject ev) w"
  let ?rest = "take i d @ drop (Suc i) d"
  have valid: "validateEventData (EventObject ev) = Valid"
    using assms(1-3) by (simp add: validateEventData_def validEvents_def truthy_def)
  have disp: "?w' = handleToolEnd a ?sid tname ev w"
    using assms(1-3) valid by (simp add: processHookEvent_def truthy_def)
  have stored: "toolStartData (loadIfAbsent ?sid w) ?sid = Some d"
    using assms(4,6) by (auto simp: inflightOf_def split: option.splits)
  have "find (\<lambda>(key, e). toolName e = tname) (rev d) = Some (d ! i)"
    using assms(6,7,9) by (intro find_rev_last) (auto simp: case_prod_beta)
  then have found: "findMatching tname d = Some (fst (d ! i), snd (d ! i))"
    by (simp add: findMatching_def)
  have del: "AList.delete (fst (d ! i)) d = ?rest"
    using assms(5,6) by (rule delete_nth_distinct)
  note eff = handleToolEnd_found [OF stored found assms(8), of a ev, unfolded del, folded disp]
  have mem: "toolStartData ?w' ?sid = Some ?rest" by (rule eff(2))
  have infl: "inflightOf ?sid ?w' = ?rest"
  proof (cases "currentTurn ?w' ?sid")
    case None
    then have "currentTurn (loadIfAbsent ?sid w) ?sid = None" by (simp add: eff(3))
    then have "stateFiles ?w' ?sid = None"
      using loadIfAbsent_absent [of ?sid w] by (simp add: eff(4))
    with None mem show ?thesis
      by (simp add: inflightOf_def loadIfAbsent_def loadTurnState_def)
  next
    case (Some t)
    with mem show ?thesis by (simp add: inflightOf_def loadIfAbsent_def)
  qed
  have onDisk: "case stateFiles ?w' ?sid of
                None \<Rightarrow> stateFiles w ?sid = None
              | Some f \<Rightarrow> fileToolStartData f = ?rest"
    using loadIfAbsent_absent [of ?sid w]
    by (cases "currentTurn (loadIfAbsent ?sid w) ?sid") (simp_all add: eff(4))
  from eff(1) mem infl onDisk show ?thesis by (intro conjI)
qed

theorem handleToolEnd_matches_most_recent_witness:
  "toolsCsv (processHookEvent
     \<lparr>now = 1700000009000, generatedSessionId = ''session_1'', transcriptFile = Map.empty,
      gitOperationRow = (\<lambda>c. None), gitCommitRow = (\<lambda>c. None)\<rparr>
     (EventObject
       \<lparr>hook_event_name = Some ''PostToolUse'', tool_name = Some ''Bash'', session_id = ''s1'',
        prompt = None, tool_input_size = 2, tool_input_command = None, tool_output_size = 40,
        success = True, transcript_path = None, was_interrupted = False, tokens_before = None,
        context_window_before = None, tokens_after = None, context_window_after = None,
        compaction_type = None, event_type = None, trigger_reason = None,
        event_reason = None\<rparr>)
     ((initialWorld ''dev'' \<lparr>repoUrl = ''u'', repoName = ''n'', repoBranch = ''main'',
        repoHeadCommit = ''abc''\<rparr>)
       \<lparr>stateFiles := [''s1'' \<mapsto>
          \<lparr>fileCurrentTurn = \<lparr>number = 2, startTime = 1700000000000, toolCount = 3,
             turnCost = 0, totalSessionCost = 0\<rparr>,
           fileToolStartData =
             [(''s1_Bash_1'', \<lparr>toolName = ''Bash'', turnNumber = 2,
                 toolStartTime = 1700000001000, inputSize = 20\<rparr>),
              (''s1_Bash_2'', \<lparr>toolName = ''Bash'', turnNumber = 2,
                 toolStartTime = 1700000002000, inputSize = 30\<rparr>),
              (''s1_Read_3'', \<lparr>toolName = ''Read'', turnNumber = 2,
                 toolStartTime = 1700000003000, inputSize = 10\<rparr>)],
           fileToolCounter = 3\<rparr>]\<rparr>))
   = [[S ''s1'', S ''dev'', I 2, S ''Bash'', I 1700000002000, I 1700000009000, S ''1'',
       I 7000, I 30, I 40]]
   \<and> inflightOf ''s1'' (processHookEvent
     \<lparr>now = 1700000009000, generatedSessionId = ''session_1'', transcriptFile = Map.empty,
      gitOperationRow = (\<lambda>c. None), gitCommitRow = (\<lambda>c. None)\<rparr>
     (EventObject
       \<lparr>hook_event_name = Some ''PostToolUse'', tool_name = Some ''Bash'', session_id = ''s1'',
        prompt = None, tool_input_size = 2, tool_input_command = None, tool_output_size = 40,
        success = True, transcript_path = None, was_interrupted = False, tokens_before = None,
        context_window_before = None, tokens_after = None, context_window_after = None,
        compaction_type = None, event_type = None, trigger_reason = None,
        event_reason = None\<rparr>)
     ((initialWorld ''dev'' \<lparr>repoUrl = ''u'', repoName = ''n'', repoBranch = ''main'',
        repoHeadCommit = ''abc''\<rparr>)
       \<lparr>stateFiles := [''s1'' \<mapsto>
          \<lparr>fileCurrentTurn = \<lparr>number = 2, startTime = 1700000000000, toolCount = 3,
             turnCost = 0, totalSessionCost = 0\<rparr>,
           fileToolStartData =
             [(''s1_Bash_1'', \<lparr>toolName = ''Bash'', turnNumber = 2,
                 toolStartTime = 1700000001000, inputSize = 20\<rparr>),
              (''s1_Bash_2'', \<lparr>toolName = ''Bash'', turnNumber = 2,
                 toolStartTime = 1700000002000, inputSize = 30\<rparr>),
              (''s1_Read_3'', \<lparr>toolName = ''Read'', turnNumber = 2,
                 toolStartTime = 1700000003000, inputSize = 10\<rparr>)],
           fileToolCounter = 3\<rparr>]\<rparr>))
   = [(''s1_Bash_1'', \<lparr>toolName = ''Bash'', turnNumber = 2,
         toolStartTime = 1700000001000, inputSize = 20\<rparr>),
      (''s1_Read_3'', \<lparr>toolName = ''Read'', turnNumber = 2,
         toolStartTime = 1700000003000, inputSize = 10\<rparr>)]"
proof -
  let ?a = "\<lparr>now = 1700000009000, generatedSessionId = ''session_1'', transcriptFile = Map.empty,
      gitOperationRow = (\<lambda>c. None), gitCommitRow = (\<lambda>c. None)\<rparr>"
  let ?ev = "\<lparr>hook_event_name = Some ''PostToolUse'', tool_name = Some ''Bash'', session_id = ''s1'',
        prompt = None, tool_input_size = 2, tool_input_command = None, tool_output_size = 40,
        success = True, transcript_path = None, was_interrupted = False, tokens_before = None,
        context_window_before = None, tokens_after = None, context_window_after = None,
        compaction_type = None, event_type = None, trigger_reason = None,
        event_reason = None\<rparr>"
  let ?d = "[(''s1_Bash_1'', \<lparr>toolName = ''Bash'', turnNumber = 2,
                 toolStartTime = 1700000001000, inputSize = 20\<rparr>),
              (''s1_Bash_2'', \<lparr>toolName = ''Bash'', turnNumber = 2,
                 toolStartTime = 1700000002000, inputSize = 30\<rparr>),
              (''s1_Read_3'', \<lparr>toolName = ''Read'', turnNumber = 2,
                 toolStartTime = 1700000003000, inputSize = 10\<rparr>)]"
  let ?w = "(initialWorld ''dev'' \<lparr>repoUrl = ''u'', repoName = ''n'', repoBranch = ''main'',
        repoHeadCommit = ''abc''\<rparr>)
       \<lparr>stateFiles := [''s1'' \<mapsto>
          \<lparr>fileCurrentTurn = \<lparr>number = 2, startTime = 1700000000000, toolCount = 3,
             turnCost = 0, totalSessionCost = 0\<rparr>,
           fileToolStartData = ?d, fileToolCounter = 3\<rparr>]\<rparr>"
  have d: "?d = inflightOf (session_id ?ev) ?w"
    by (simp add: inflightOf_def loadIfAbsent_def loadTurnState_def initialWorld_def)
  have last: "\<forall>j. (1::nat) < j \<and> j < length ?d \<longrightarrow> toolName (snd (?d ! j)) \<noteq> ''Bash''"
  proof (intro allI impI)
    fix j :: nat assume "1 < j \<and> j < length ?d"
    then have "j = 2" by simp
    then show "toolName (snd (?d ! j)) \<noteq> ''Bash''" by simp
  qed
  from handleToolEnd_matches_most_recent [of ?ev "''Bash''" ?d ?w 1 ?a, OF _ _ _ d _ _ _ _ last]
  show ?thesis by (simp add: initialWorld_def)
qed

text \<open>
  Claim C6. On a \<^verbatim>\<open>Stop\<close> event without a transcript path, for a session whose state
  (in memory, or else in its state file) carries the cumulative cost
  \<open>totalSessionCost t\<close>, exactly one row is appended to the sessions ledger and its
  total-cost field is that cumulative cost formatted by \<^verbatim>\<open>toFixed(10)\<close>; the cost ledger
  is neither read nor extended.
\<close>

theorem handleSessionEnd_reports_accumulated_cost:
  assumes "hook_event_name ev = Some ''Stop''" and "transcript_path ev = None"
      and "currentTurn w (session_id ev) = Some t
           \<or> (currentTurn w (session_id ev) = None
               \<and> (\<exists>f. stateFiles w (session_id ev) = Some f \<and> fileCurrentTurn f = t))"
  shows "sessionsCsv (processHookEvent a (EventObject ev) w) = sessionsCsv w @
           [[S (session_id ev), S (userId w), S (repoUrl (repo w)), S (repoName (repo w)),
             S (repoBranch (repo w)), S (repoHeadCommit (repo w)),
             (if startTime t = 0 then S [] else I (startTime t)), I (now a),
             I (if number t = 0 then 1 else number t), Fixed10 (totalSessionCost t),
             I (if was_interrupted ev then 1 else 0)]]
       \<and> costsCsv (processHookEvent a (EventObject ev) w) = costsCsv w
       \<and> stateFiles (processHookEvent a (EventObject ev) w) = stateFiles w"
proof -
  let ?sid = "session_id ev"
  have valid: "validateEventData (EventObject ev) = Valid"
    using assms(1) by (simp add: validateEventData_def validEvents_def)
  have disp: "processHookEvent a (EventObject ev) w = handleSessionEnd a ?sid ev w"
    using assms(1) valid by (simp add: processHookEvent_def)
  have loaded: "currentTurn (loadIfAbsent ?sid w) ?sid = Some t"
    using assms(3) by (auto simp: loadIfAbsent_def loadTurnState_def)
  show ?thesis
    unfolding disp
    using loaded assms(2)
    by (simp add: handleSessionEnd_def Let_def truthy_def getCurrentTurnNumber_def
          updateSessionRecord_def cleanupSession_def loadIfAbsent_frame)
qed

theorem handleSessionEnd_reports_accumulated_cost_witness:
  "sessionsCsv (processHookEvent
     \<lparr>now = 1700000009000, generatedSessionId = ''session_1'', transcriptFile = Map.empty,
      gitOperationRow = (\<lambda>c. None), gitCommitRow = (\<lambda>c. None)\<rparr>
     (EventObject
       \<lparr>hook_event_name = Some ''Stop'', tool_name = None, session_id = ''s1'',
        prompt = None, tool_input_size = 2, tool_input_command = None, tool_output_size = 2,
        success = True, transcript_path = None, was_interrupted = False, tokens_before = None,
        context_window_before = None, tokens_after = None, context_window_after = None,
        compaction_type = None, event_type = None, trigger_reason = None,
        event_reason = None\<rparr>)
     ((initialWorld ''dev'' \<lparr>repoUrl = ''u'', repoName = ''n'', repoBranch = ''main'',
        repoHeadCommit = ''abc''\<rparr>)
       \<lparr>stateFiles := [''s1'' \<mapsto>
          \<lparr>fileCurrentTurn = \<lparr>number = 3, startTime = 1700000000000, toolCount = 1,
             turnCost = 1/8, totalSessionCost = 419/4000\<rparr>,
           fileToolStartData = [], fileToolCounter = 4\<rparr>]\<rparr>))
   = [[S ''s1'', S ''dev'', S ''u'', S ''n'', S ''main'', S ''abc'', I 1700000000000,
       I 1700000009000, I 3, Fixed10 (419/4000), I 0]]"
  using handleSessionEnd_reports_accumulated_cost
    [of "\<lparr>hook_event_name = Some ''Stop'', tool_name = None, session_id = ''s1'',
        prompt = None, tool_input_size = 2, tool_input_command = None, tool_output_size = 2,
        success = True, transcript_path = None, was_interrupted = False, tokens_before = None,
        context_window_before = None, tokens_after = None, context_window_after = None,
        compaction_type = None, event_type = None, trigger_reason = None,
        event_reason = None\<rparr>"
       "(initialWorld ''dev'' \<lparr>repoUrl = ''u'', repoName = ''n'', repoBranch = ''main'',
        repoHeadCommit = ''abc''\<rparr>)
       \<lparr>stateFiles := [''s1'' \<mapsto>
          \<lparr>fileCurrentTurn = \<lparr>number = 3, startTime = 1700000000000, toolCount = 1,
             turnCost = 1/8, totalSessionCost = 419/4000\<rparr>,
           fileToolStartData = [], fileToolCounter = 4\<rparr>]\<rparr>"
       "\<lparr>number = 3, startTime = 1700000000000, toolCount = 1,
             turnCost = 1/8, totalSessionCost = 419/4000\<rparr>"
       "\<lparr>now = 1700000009000, generatedSessionId = ''session_1'', transcriptFile = Map.empty,
      gitOperationRow = (\<lambda>c. None), gitCommitRow = (\<lambda>c. None)\<rparr>"]
  by (simp add: initialWorld_def)

section \<open>The numbering of turns\<close>

text \<open>
  A step that writes no turn row, changes no turn number on disk, and leaves in memory
  only numbers that agree with the disk, keeps the invariant.
\<close>

lemma turnInvariant_frame:
  assumes "turnInvariant w" and "turnsCsv w' = turnsCsv w"
      and "\<And>s. fileNumber w' s = fileNumber w s"
      and "\<And>s. memNumber w' s = None \<or> memNumber w' s = fileNumber w s"
  shows "turnInvariant w'"
  using assms(1,4) unfolding turnInvariant_def assms(2,3) by simp

lemma numbers_loadIfAbsent:
  "fileNumber (loadIfAbsent sid w) s = fileNumber w s"
  "memNumber (loadIfAbsent sid w) s =
     (if s = sid \<and> memNumber w sid = None then fileNumber w sid else memNumber w s)"
  by (auto simp: fileNumber_def memNumber_def loadIfAbsent_def loadTurnState_def
           split: option.splits)

lemma numbers_saveTurnState:
  "memNumber (saveTurnState sid w) s = memNumber w s"
  "fileNumber (saveTurnState sid w) s =
     (if s = sid \<and> memNumber w sid \<noteq> None then memNumber w sid else fileNumber w s)"
  by (auto simp: fileNumber_def memNumber_def saveTurnState_def split: option.splits)

lemma numbers_git:
  "memNumber (handleGitCommand a c w) s = memNumber w s"
  "fileNumber (handleGitCommand a c w) s = fileNumber w s"
  "memNumber (handleGitOperations a c w) s = memNumber w s"
  "fileNumber (handleGitOperations a c w) s = fileNumber w s"
  by (simp_all add: fileNumber_def memNumber_def handleGitCommand_def handleGitOperations_def
        split: option.splits)

lemma numbers_cleanupSession:
  "memNumber (cleanupSession sid w) s = (if s = sid then None else memNumber w s)"
  "fileNumber (cleanupSession sid w) s = fileNumber w s"
  by (simp_all add: fileNumber_def memNumber_def cleanupSession_def)

lemma numbers_updateSessionRecord:
  "memNumber (updateSessionRecord sid n c i e w) s = memNumber w s"
  "fileNumber (updateSessionRecord sid n c i e w) s = fileNumber w s"
  "turnsCsv (updateSessionRecord sid n c i e w) = turnsCsv w"
  by (simp_all add: fileNumber_def memNumber_def updateSessionRecord_def Let_def)

text \<open>Updates of fields other than the turn tables do not change the numbers.\<close>

lemma numbers_other_fields:
  "memNumber (x\<lparr>toolsCsv := u1\<rparr>) = memNumber x"
  "fileNumber (x\<lparr>toolsCsv := u1\<rparr>) = fileNumber x"
  "memNumber (x\<lparr>toolStartData := u2\<rparr>) = memNumber x"
  "fileNumber (x\<lparr>toolStartData := u2\<rparr>) = fileNumber x"
  "memNumber (x\<lparr>toolCounter := u3\<rparr>) = memNumber x"
  "fileNumber (x\<lparr>toolCounter := u3\<rparr>) = fileNumber x"
  "memNumber (x\<lparr>stderr := u4\<rparr>) = memNumber x"
  "fileNumber (x\<lparr>stderr := u4\<rparr>) = fileNumber x"
  "memNumber (x\<lparr>costsCsv := u5\<rparr>) = memNumber x"
  "fileNumber (x\<lparr>costsCsv := u5\<rparr>) = fileNumber x"
  "memNumber (x\<lparr>compactionsCsv := u6\<rparr>) = memNumber x"
  "fileNumber (x\<lparr>compactionsCsv := u6\<rparr>) = fileNumber x"
  "memNumber (x\<lparr>promptsCsv := u7\<rparr>) = memNumber x"
  "fileNumber (x\<lparr>promptsCsv := u7\<rparr>) = fileNumber x"
  "memNumber (x\<lparr>turnsCsv := u8\<rparr>) = memNumber x"
  "fileNumber (x\<lparr>turnsCsv := u8\<rparr>) = fileNumber x"
  "fileNumber (x\<lparr>currentTurn := u9\<rparr>) = fileNumber x"
  by (simp_all add: fun_eq_iff memNumber_def fileNumber_def)

lemma memNumber_currentTurn_update:
  "memNumber (x\<lparr>currentTurn := (currentTurn x)(sid \<mapsto> t)\<rparr>) s =
     (if s = sid then Some (number t) else memNumber x s)"
  by (simp add: memNumber_def)

lemma memNumber_Some: "currentTurn w sid = Some t \<Longrightarrow> memNumber w sid = Some (number t)"
  by (simp add: memNumber_def)

lemma memNumber_None: "currentTurn w sid = None \<Longrightarrow> memNumber w sid = None"
  by (simp add: memNumber_def)

lemma turnInvariant_handleToolEnd:
  assumes "turnInvariant w"
  shows "turnInvariant (handleToolEnd a sid tname ev w)"
proof (rule turnInvariant_frame [OF assms])
  show "turnsCsv (handleToolEnd a sid tname ev w) = turnsCsv w"
    by (simp add: handleToolEnd_def Let_def saveTurnState_frame handleGitCommand_frame
          loadIfAbsent_frame split: option.splits prod.splits)
next
  fix s
  have inv: "memNumber w s = None \<or> memNumber w s = fileNumber w s"
       "memNumber w sid = None \<or> memNumber w sid = fileNumber w sid"
    using assms by (simp_all add: turnInvariant_def)
  show "fileNumber (handleToolEnd a sid tname ev w) s = fileNumber w s"
    using inv
    by (auto simp: handleToolEnd_def Let_def numbers_saveTurnState numbers_git
          numbers_loadIfAbsent numbers_other_fields split: option.splits prod.splits)
  show "memNumber (handleToolEnd a sid tname ev w) s = None
        \<or> memNumber (handleToolEnd a sid tname ev w) s = fileNumber w s"
    using inv
    by (auto simp: handleToolEnd_def Let_def numbers_saveTurnState numbers_git
          numbers_loadIfAbsent numbers_other_fields split: option.splits prod.splits)
qed

lemma turnInvariant_handleCompaction:
  assumes "turnInvariant w"
  shows "turnInvariant (handleCompaction a sid ev w)"
proof (rule turnInvariant_frame [OF assms])
  show "turnsCsv (handleCompaction a sid ev w) = turnsCsv w"
    by (simp add: handleCompaction_def Let_def)
next
  fix s
  show "fileNumber (handleCompaction a sid ev w) s = fileNumber w s"
    by (simp add: handleCompaction_def Let_def numbers_other_fields)
  show "memNumber (handleCompaction a sid ev w) s = None
        \<or> memNumber (handleCompaction a sid ev w) s = fileNumber w s"
    using assms by (simp add: handleCompaction_def Let_def numbers_other_fields turnInvariant_def)
qed

lemma turnInvariant_handleToolStart:
  assumes "turnInvariant w"
  shows "turnInvariant (handleToolStart a sid tname ev w)"
proof (rule turnInvariant_frame [OF assms])
  show "turnsCsv (handleToolStart a sid tname ev w) = turnsCsv w"
    by (simp add: handleToolStart_def Let_def saveTurnState_frame handleGitOperations_frame
          loadIfAbsent_frame split: option.splits)
next
  fix s
  have inv: "memNumber w s = None \<or> memNumber w s = fileNumber w s"
       "memNumber w sid = None \<or> memNumber w sid = fileNumber w sid"
    using assms by (simp_all add: turnInvariant_def)
  define w1 where "w1 = loadIfAbsent sid w"
  have n1: "fileNumber w1 = fileNumber w"
    "memNumber w1 s = None \<or> memNumber w1 s = fileNumber w s"
    "memNumber w1 sid = None \<or> memNumber w1 sid = fileNumber w sid"
    using inv by (auto simp: w1_def fun_eq_iff numbers_loadIfAbsent)
  define w2 where "w2 = (case currentTurn w1 sid of
                  None \<Rightarrow> w1
                | Some t \<Rightarrow>
                    w1\<lparr>currentTurn := (currentTurn w1)(sid \<mapsto> t\<lparr>toolCount := toolCount t + 1\<rparr>)\<rparr>)"
  have n2: "fileNumber w2 = fileNumber w1" "memNumber w2 = memNumber w1"
    by (auto simp: w2_def fun_eq_iff memNumber_def fileNumber_def split: option.splits)
  define w3 where "w3 =
         w2\<lparr>toolCounter := (toolCounter w2)(sid \<mapsto>
                 (case toolCounter w2 sid of None \<Rightarrow> 0 | Some c \<Rightarrow> c) + 1),
             toolStartData := (toolStartData w2)(sid \<mapsto>
                AList.update
                  (sid @ ''_'' @ tname @ ''_'' @
                     numberToString ((case toolCounter w2 sid of None \<Rightarrow> 0 | Some c \<Rightarrow> c) + 1))
                  \<lparr>toolName = tname, turnNumber = getCurrentTurnNumber sid w1,
                    toolStartTime = now a, inputSize = tool_input_size ev\<rparr>
                  (case toolStartData w2 sid of None \<Rightarrow> [] | Some d \<Rightarrow> d))\<rparr>"
  have n3: "fileNumber w3 = fileNumber w2" "memNumber w3 = memNumber w2"
    by (simp_all add: w3_def fun_eq_iff memNumber_def fileNumber_def)
  have eq: "handleToolStart a sid tname ev w =
      (if tname = ''Bash'' \<and> truthy (tool_input_command ev)
       then handleGitOperations a (the (tool_input_command ev)) (saveTurnState sid w3)
       else saveTurnState sid w3)"
    unfolding handleToolStart_def Let_def w1_def w2_def w3_def by (rule refl)
  show "fileNumber (handleToolStart a sid tname ev w) s = fileNumber w s"
    using n1 by (auto simp: eq numbers_git numbers_saveTurnState n2 n3)
  show "memNumber (handleToolStart a sid tname ev w) s = None
        \<or> memNumber (handleToolStart a sid tname ev w) s = fileNumber w s"
    using n1 by (auto simp: eq numbers_git numbers_saveTurnState n2 n3)
qed

lemma turnInvariant_handleSessionEnd:
  assumes "turnInvariant w"
  shows "turnInvariant (handleSessionEnd a sid ev w)"
proof (rule turnInvariant_frame [OF assms])
  have inv: "\<And>s. memNumber w s = None \<or> memNumber w s = fileNumber w s"
    using assms by (simp add: turnInvariant_def)
  define w1 where "w1 = loadIfAbsent sid w"
  have n1: "fileNumber w1 = fileNumber w" "turnsCsv w1 = turnsCsv w"
    "\<And>s. memNumber w1 s = None \<or> memNumber w1 s = fileNumber w s"
    using inv by (auto simp: w1_def fun_eq_iff numbers_loadIfAbsent loadIfAbsent_frame)
  define recs where "recs =
     (if truthy (transcript_path ev) \<and> currentTurn w1 sid \<noteq> None
      then parseTranscriptTokens a (the (transcript_path ev)) else [])"
  define w2 where "w2 =
     (case currentTurn w1 sid of
        None \<Rightarrow> w1
      | Some t \<Rightarrow>
          if recs = [] then w1
          else
            (let latestRecord = last recs;
                 w1' = w1\<lparr>costsCsv := costsCsv w1 @
                         [[S sid, S (userId w1), I (getCurrentTurnNumber sid w1),
                           S (strOr (rec_message_id latestRecord) []),
                           S (strOr (rec_model_name latestRecord) DEFAULT_MODEL),
                           I (rec_input_tokens latestRecord),
                           I (rec_output_tokens latestRecord),
                           I (rec_total_tokens latestRecord),
                           R (input_cost_usd (rec_costs latestRecord)),
                           R (output_cost_usd (rec_costs latestRecord)),
                           R (total_cost_usd (rec_costs latestRecord)),
                           I (intOr (rec_timestamp latestRecord) (now a))]],
                       currentTurn := (currentTurn w1)(sid \<mapsto>
                         t\<lparr>turnCost := total_cost_usd (rec_costs latestRecord),
                           totalSessionCost :=
                             totalSessionCost t + total_cost_usd (rec_costs latestRecord)\<rparr>)\<rparr>
             in saveTurnState sid w1'))"
  have n2: "turnsCsv w2 = turnsCsv w1" "memNumber w2 = memNumber w1"
    by (auto simp: w2_def Let_def fun_eq_iff saveTurnState_frame numbers_saveTurnState
          memNumber_def split: option.splits)
  have f2: "fileNumber w2 s = fileNumber w s" for s
    using n1(3) [of sid]
    by (auto simp: w2_def Let_def numbers_saveTurnState numbers_other_fields n1(1)
          memNumber_def split: option.splits)
  have eq: "handleSessionEnd a sid ev w =
      cleanupSession sid
        (updateSessionRecord sid (getCurrentTurnNumber sid w1)
           (case currentTurn w2 sid of None \<Rightarrow> 0 | Some t \<Rightarrow> totalSessionCost t)
           (was_interrupted ev) (now a) w2)"
    unfolding handleSessionEnd_def Let_def w1_def w2_def recs_def by (rule refl)
  show "turnsCsv (handleSessionEnd a sid ev w) = turnsCsv w"
    by (simp add: eq cleanupSession_def numbers_updateSessionRecord n2 n1)
  fix s
  show "fileNumber (handleSessionEnd a sid ev w) s = fileNumber w s"
    by (simp add: eq numbers_cleanupSession numbers_updateSessionRecord f2)
  show "memNumber (handleSessionEnd a sid ev w) s = None
        \<or> memNumber (handleSessionEnd a sid ev w) s = fileNumber w s"
    using n1(3) [of s]
    by (simp add: eq numbers_cleanupSession numbers_updateSessionRecord n2)
qed

text \<open>
  What \<^verbatim>\<open>handleTurnStart\<close> does to the turns ledger and to the turn numbers, when the
  lookup finds no inherited member and when it finds one.
\<close>

lemma handleTurnStart_effect:
  assumes own: "\<not> inheritedMember (currentTurn w) sid"
  shows "turnsCsv (handleTurnStart a sid ev w) = turnsCsv w @
     (case currentTurn (loadIfAbsent sid w) sid of
        None \<Rightarrow> []
      | Some t \<Rightarrow> [[S sid, S (userId w), I (number t), I (startTime t), I (now a),
                    I (toolCount t), R (turnCost t), I 0]])"
  and "memNumber (handleTurnStart a sid ev w) s =
     (if s = sid
      then Some (case memNumber (loadIfAbsent sid w) sid of None \<Rightarrow> 1 | Some n \<Rightarrow> n + 1)
      else memNumber w s)"
  and "fileNumber (handleTurnStart a sid ev w) s =
     (if s = sid
      then Some (case memNumber (loadIfAbsent sid w) sid of None \<Rightarrow> 1 | Some n \<Rightarrow> n + 1)
      else fileNumber w s)"
proof -
  define w1 where "w1 = loadIfAbsent sid w"
  define w2 where "w2 = (if currentTurn w1 sid \<noteq> None
                          then writeTurnData sid (now a) False w1 else w1)"
  define turn where "turn = (case currentTurn w2 sid of
                    None \<Rightarrow> \<lparr>number = 1, startTime = now a, toolCount = 0, turnCost = 0,
                              totalSessionCost = 0\<rparr>
                  | Some t \<Rightarrow> t\<lparr>number := number t + 1, startTime := now a, toolCount := 0,
                               turnCost := 0\<rparr>)"
  define w4 where "w4 = saveTurnState sid (w2\<lparr>currentTurn := (currentTurn w2)(sid \<mapsto> turn)\<rparr>)"
  have "handleTurnStart a sid ev w =
      (let w1 = loadIfAbsent sid w;
           w2 = (if currentTurn w1 sid \<noteq> None
                 then writeTurnData sid (now a) False w1 else w1);
           turn = (case currentTurn w2 sid of
                     None \<Rightarrow> \<lparr>number = 1, startTime = now a, toolCount = 0, turnCost = 0,
                               totalSessionCost = 0\<rparr>
                   | Some t \<Rightarrow> t\<lparr>number := number t + 1, startTime := now a, toolCount := 0,
                                turnCost := 0\<rparr>);
           w3 = w2\<lparr>currentTurn := (currentTurn w2)(sid \<mapsto> turn)\<rparr>;
           w4 = saveTurnState sid w3
       in case prompt ev of
            None \<Rightarrow> w4
          | Some p \<Rightarrow>
              if p \<noteq> [] \<and> trim p \<noteq> [] then
                w4\<lparr>promptsCsv := promptsCsv w4 @
                    [[S sid, S (userId w4), I (number turn),
                      S (category (categorizePrompt p)), S (subcategory (categorizePrompt p)),
                      I (int (length (trim p))), I (now a)]]\<rparr>
              else w4)"
    unfolding handleTurnStart_def using own by (simp only: if_False)
  then have eq: "handleTurnStart a sid ev w =
      (case prompt ev of
         None \<Rightarrow> w4
       | Some p \<Rightarrow>
           if p \<noteq> [] \<and> trim p \<noteq> [] then
             w4\<lparr>promptsCsv := promptsCsv w4 @
                 [[S sid, S (userId w4), I (number turn),
                   S (category (categorizePrompt p)), S (subcategory (categorizePrompt p)),
                   I (int (length (trim p))), I (now a)]]\<rparr>
           else w4)"
    unfolding Let_def w1_def w2_def turn_def w4_def .
  have t2: "currentTurn w2 = currentTurn w1" "stateFiles w2 = stateFiles w1"
    "turnsCsv w2 = turnsCsv w1 @
       (case currentTurn w1 sid of
          None \<Rightarrow> []
        | Some t \<Rightarrow> [[S sid, S (userId w1), I (number t), I (startTime t), I (now a),
                      I (toolCount t), R (turnCost t), I 0]])"
    by (auto simp: w2_def writeTurnData_def split: option.splits)
  have nturn: "number turn = (case memNumber w1 sid of None \<Rightarrow> 1 | Some n \<Rightarrow> n + 1)"
    by (simp add: turn_def t2 memNumber_def split: option.splits)
  have t4: "turnsCsv w4 = turnsCsv w2"
    "memNumber w4 s = (if s = sid then Some (number turn) else memNumber w1 s)"
    "fileNumber w4 s = (if s = sid then Some (number turn) else fileNumber w1 s)"
    by (auto simp: w4_def saveTurnState_frame saveTurnState_def memNumber_def fileNumber_def t2)
  have other: "s \<noteq> sid \<Longrightarrow> memNumber w1 s = memNumber w s"
    by (simp add: w1_def numbers_loadIfAbsent)
  have f1: "turnsCsv w1 = turnsCsv w" "userId w1 = userId w" "fileNumber w1 = fileNumber w"
    by (simp_all add: w1_def loadIfAbsent_frame fun_eq_iff numbers_loadIfAbsent)
  have r: "turnsCsv (handleTurnStart a sid ev w) = turnsCsv w4"
    "memNumber (handleTurnStart a sid ev w) = memNumber w4"
    "fileNumber (handleTurnStart a sid ev w) = fileNumber w4"
    by (auto simp: eq numbers_other_fields split: option.splits)
  show "turnsCsv (handleTurnStart a sid ev w) = turnsCsv w @
     (case currentTurn (loadIfAbsent sid w) sid of
        None \<Rightarrow> []
      | Some t \<Rightarrow> [[S sid, S (userId w), I (number t), I (startTime t), I (now a),
                    I (toolCount t), R (turnCost t), I 0]])"
    unfolding w1_def [symmetric] by (simp add: r t4(1) t2(3) f1 split: option.splits)
  show "memNumber (handleTurnStart a sid ev w) s =
     (if s = sid
      then Some (case memNumber (loadIfAbsent sid w) sid of None \<Rightarrow> 1 | Some n \<Rightarrow> n + 1)
      else memNumber w s)"
    unfolding w1_def [symmetric] using other by (simp add: r t4(2) nturn)
  show "fileNumber (handleTurnStart a sid ev w) s =
     (if s = sid
      then Some (case memNumber (loadIfAbsent sid w) sid of None \<Rightarrow> 1 | Some n \<Rightarrow> n + 1)
      else fileNumber w s)"
    unfolding w1_def [symmetric] by (simp add: r t4(3) nturn f1)
qed

lemma handleTurnStart_inherited:
  assumes "inheritedMember (currentTurn w) sid"
  shows "turnsCsv (handleTurnStart a sid ev w) = turnsCsv w @
           [[S sid, S (userId w), Undef, Undef, I (now a), Undef, R 0, I 0]]"
    and "memNumber (handleTurnStart a sid ev w) = memNumber w"
    and "fileNumber (handleTurnStart a sid ev w) = fileNumber w"
  using assms
  by (auto simp: handleTurnStart_def writeTurnData_def Let_def inheritedMember_def
        numbers_other_fields split: option.splits)

lemma turnNumbersOf_append_row:
  "turnNumbersOf s (rows @ [S sid # u # c # rest]) =
     turnNumbersOf s rows @ (if s = sid then [c] else [])"
  by (simp add: turnNumbersOf_def)

lemma turnInvariant_handleTurnStart:
  assumes "turnInvariant w"
  shows "turnInvariant (handleTurnStart a sid ev w)"
  unfolding turnInvariant_def
proof (intro allI)
  fix s
  let ?w' = "handleTurnStart a sid ev w"
  have inv: "s \<notin> set objectPrototypeNames \<Longrightarrow>
             (case fileNumber w s of
                None \<Rightarrow> turnNumbersOf s (turnsCsv w) = []
              | Some n \<Rightarrow> 1 \<le> n \<and> turnNumbersOf s (turnsCsv w) = map I [1 .. n - 1])"
            "memNumber w s = None \<or> memNumber w s = fileNumber w s"
    using assms by (simp_all add: turnInvariant_def)
  show "(s \<notin> set objectPrototypeNames \<longrightarrow>
         (case fileNumber ?w' s of
            None \<Rightarrow> turnNumbersOf s (turnsCsv ?w') = []
          | Some n \<Rightarrow> 1 \<le> n \<and> turnNumbersOf s (turnsCsv ?w') = map I [1 .. n - 1]))
        \<and> (memNumber ?w' s = None \<or> memNumber ?w' s = fileNumber ?w' s)"
  proof (cases "inheritedMember (currentTurn w) sid")
    case True
    then have sid: "sid \<in> set objectPrototypeNames" by (simp add: inheritedMember_def)
    have "turnNumbersOf s (turnsCsv ?w') = turnNumbersOf s (turnsCsv w)"
      if "s \<notin> set objectPrototypeNames"
      using that sid
      by (auto simp: handleTurnStart_inherited(1) [OF True] turnNumbersOf_append_row)
    with inv show ?thesis
      by (auto simp: handleTurnStart_inherited(2,3) [OF True] cong: option.case_cong)
  next
    case own: False
    note effect = handleTurnStart_effect [OF own]
    show ?thesis
    proof (cases "s = sid")
      case False
      have "turnNumbersOf s (turnsCsv ?w') = turnNumbersOf s (turnsCsv w)"
        using False
        by (simp add: effect(1) turnNumbersOf_append_row split: option.splits)
      with False inv show ?thesis
        by (simp add: effect(2,3) cong: option.case_cong)
    next
      case True
      have mem: "memNumber ?w' s = fileNumber ?w' s"
        using True by (simp add: effect(2,3))
      have "case fileNumber ?w' s of
              None \<Rightarrow> turnNumbersOf s (turnsCsv ?w') = []
            | Some n \<Rightarrow> 1 \<le> n \<and> turnNumbersOf s (turnsCsv ?w') = map I [1 .. n - 1]"
        if ordinary: "s \<notin> set objectPrototypeNames"
      proof (cases "currentTurn (loadIfAbsent sid w) sid")
        case None
        then have absent: "memNumber (loadIfAbsent sid w) sid = None" by (rule memNumber_None)
        then have "fileNumber w sid = None"
          by (simp add: numbers_loadIfAbsent split: if_splits)
        with inv(1) [OF ordinary] True have "turnNumbersOf s (turnsCsv w) = []" by simp
        with True None absent show ?thesis by (simp add: effect)
      next
        case (Some t)
        then have present: "memNumber (loadIfAbsent sid w) sid = Some (number t)"
          by (rule memNumber_Some)
        then have "fileNumber w sid = Some (number t)"
          using inv(2) True by (auto simp: numbers_loadIfAbsent split: if_splits)
        with inv(1) [OF ordinary] True have n: "1 \<le> number t"
          and old: "turnNumbersOf s (turnsCsv w) = map I [1 .. number t - 1]" by simp_all
        have "turnNumbersOf s (turnsCsv ?w') = map I [1 .. number t - 1] @ [I (number t)]"
          using True Some old by (simp add: effect(1) turnNumbersOf_append_row)
        also have "\<dots> = map I [1 .. number t]"
          using n upto_rec2 [of 1 "number t"] by simp
        finally show ?thesis using True present n by (simp add: effect)
      qed
      with mem show ?thesis by simp
    qed
  qed
qed

lemma turnInvariant_processHookEvent:
  assumes "turnInvariant w"
  shows "turnInvariant (processHookEvent a eventData w)"
proof (cases "validateEventData eventData")
  case (Invalid err)
  have "turnInvariant (w\<lparr>stderr := stderr w @ [''[Analytics Error] Invalid event data: '' @ err]\<rparr>)"
    by (rule turnInvariant_frame [OF assms]) (use assms in \<open>simp_all add: numbers_other_fields turnInvariant_def\<close>)
  with Invalid show ?thesis by (simp add: processHookEvent_def)
next
  case Valid
  with assms show ?thesis
    by (simp add: processHookEvent_def turnInvariant_handleTurnStart
          turnInvariant_handleToolStart turnInvariant_handleToolEnd
          turnInvariant_handleCompaction turnInvariant_handleSessionEnd
          split: eventData.splits)
qed

lemma turnInvariant_freshProcess: "turnInvariant w \<Longrightarrow> turnInvariant (freshProcess w)"
  by (erule turnInvariant_frame) (simp_all add: freshProcess_def fileNumber_def memNumber_def)

lemma turnInvariant_initialWorld: "turnInvariant (initialWorld uid r)"
  by (simp add: turnInvariant_def initialWorld_def fileNumber_def memNumber_def turnNumbersOf_def)

lemma turnInvariant_run: "turnInvariant w \<Longrightarrow> turnInvariant (run w steps)"
proof (induction steps arbitrary: w)
  case Nil
  then show ?case by simp
next
  case (Cons step steps)
  obtain fresh a eventData where step: "step = (fresh, a, eventData)" by (cases step)
  have "turnInvariant (if fresh then freshProcess w else w)"
    using Cons.prems by (simp add: turnInvariant_freshProcess)
  then have "turnInvariant (processHookEvent a eventData (if fresh then freshProcess w else w))"
    by (rule turnInvariant_processHookEvent)
  then show ?case unfolding step by (simp add: Cons.IH)
qed

text \<open>
  After any history of events from the initial state, whichever of them are processed by
  a new process that reloads the state file, the turn numbers of the rows of the turns
  ledger that belong to a session are, in the order written, \<open>1, 2, \<dots>, k\<close>, where \<open>k\<close>
  is the number of such rows, provided the session identifier is not the name of an
  inherited member.
\<close>

lemma turn_numbers_consecutive_ordinary:
  assumes "s \<notin> set objectPrototypeNames"
  shows "turnNumbersOf s (turnsCsv (run (initialWorld uid r) steps))
     = map I [1 .. int (length (turnNumbersOf s (turnsCsv (run (initialWorld uid r) steps))))]"
proof -
  let ?w = "run (initialWorld uid r) steps"
  have "turnInvariant ?w"
    by (rule turnInvariant_run [OF turnInvariant_initialWorld])
  with assms have inv: "case fileNumber ?w s of
               None \<Rightarrow> turnNumbersOf s (turnsCsv ?w) = []
             | Some n \<Rightarrow> 1 \<le> n \<and> turnNumbersOf s (turnsCsv ?w) = map I [1 .. n - 1]"
    by (simp add: turnInvariant_def)
  show ?thesis
  proof (cases "fileNumber ?w s")
    case None
    with inv show ?thesis by simp
  next
    case (Some n)
    with inv have n: "1 \<le> n" and eq: "turnNumbersOf s (turnsCsv ?w) = map I [1 .. n - 1]"
      by simp_all
    from n have "int (length (map I [1 .. n - 1])) = n - 1" by simp
    with eq show ?thesis by simp
  qed
qed

text \<open>
  The specification's example, each event in a process of its own: a prompt, a
  \<^verbatim>\<open>Bash\<close> tool call and its completion, a second and a third prompt. The second prompt
  writes the row of turn 1 with one tool call, the third the row of turn 2.
\<close>

lemma turn_numbers_consecutive_ordinary_example:
  "turnsCsv (run (initialWorld ''dev'' \<lparr>repoUrl = ''u'', repoName = ''n'', repoBranch = ''main'',
        repoHeadCommit = ''abc''\<rparr>)
     [(True,
       \<lparr>now = 1000, generatedSessionId = ''g'', transcriptFile = Map.empty,
        gitOperationRow = (\<lambda>c. None), gitCommitRow = (\<lambda>c. None)\<rparr>,
       EventObject
        \<lparr>hook_event_name = Some ''UserPromptSubmit'', tool_name = None, session_id = ''s1'',
         prompt = Some ''fix the bug'', tool_input_size = 2, tool_input_command = None,
         tool_output_size = 2, success = True, transcript_path = None,
         was_interrupted = False, tokens_before = None, context_window_before = None,
         tokens_after = None, context_window_after = None, compaction_type = None,
         event_type = None, trigger_reason = None, event_reason = None\<rparr>),
      (True,
       \<lparr>now = 2000, generatedSessionId = ''g'', transcriptFile = Map.empty,
        gitOperationRow = (\<lambda>c. None), gitCommitRow = (\<lambda>c. None)\<rparr>,
       EventObject
        \<lparr>hook_event_name = Some ''PreToolUse'', tool_name = Some ''Bash'', session_id = ''s1'',
         prompt = None, tool_input_size = 20, tool_input_command = Some ''ls'',
         tool_output_size = 2, success = True, transcript_path = None,
         was_interrupted = False, tokens_before = None, context_window_before = None,
         tokens_after = None, context_window_after = None, compaction_type = None,
         event_type = None, trigger_reason = None, event_reason = None\<rparr>),
      (True,
       \<lparr>now = 3000, generatedSessionId = ''g'', transcriptFile = Map.empty,
        gitOperationRow = (\<lambda>c. None), gitCommitRow = (\<lambda>c. None)\<rparr>,
       EventObject
        \<lparr>hook_event_name = Some ''PostToolUse'', tool_name = Some ''Bash'', session_id = ''s1'',
         prompt = None, tool_input_size = 20, tool_input_command = Some ''ls'',
         tool_output_size = 50, success = True, transcript_path = None,
         was_interrupted = False, tokens_before = None, context_window_before = None,
         tokens_after = None, context_window_after = None, compaction_type = None,
         event_type = None, trigger_reason = None, event_reason = None\<rparr>),
      (True,
       \<lparr>now = 4000, generatedSessionId = ''g'', transcriptFile = Map.empty,
        gitOperationRow = (\<lambda>c. None), gitCommitRow = (\<lambda>c. None)\<rparr>,
       EventObject
        \<lparr>hook_event_name = Some ''UserPromptSubmit'', tool_name = None, session_id = ''s1'',
         prompt = Some ''now add a test'', tool_input_size = 2, tool_input_command = None,
         tool_output_size = 2, success = True, transcript_path = None,
         was_interrupted = False, tokens_before = None, context_window_before = None,
         tokens_after = None, context_window_after = None, compaction_type = None,
         event_type = None, trigger_reason = None, event_reason = None\<rparr>),
      (True,
       \<lparr>now = 5000, generatedSessionId = ''g'', transcriptFile = Map.empty,
        gitOperationRow = (\<lambda>c. None), gitCommitRow = (\<lambda>c. None)\<rparr>,
       EventObject
        \<lparr>hook_event_name = Some ''UserPromptSubmit'', tool_name = None, session_id = ''s1'',
         prompt = None, tool_input_size = 2, tool_input_command = None,
         tool_output_size = 2, success = True, transcript_path = None,
         was_interrupted = False, tokens_before = None, context_window_before = None,
         tokens_after = None, context_window_after = None, compaction_type = None,
         event_type = None, trigger_reason = None, event_reason = None\<rparr>)])
   = [[S ''s1'', S ''dev'', I 1, I 1000, I 4000, I 1, R 0, I 0],
      [S ''s1'', S ''dev'', I 2, I 4000, I 5000, I 0, R 0, I 0]]"
  (is "turnsCsv ?w = ?rows")
proof -
  have rows: "turnsCsv ?w = ?rows"
    by code_simp
  have "''s1'' \<notin> set objectPrototypeNames"
    by (simp add: objectPrototypeNames_def)
  then have "turnNumbersOf ''s1'' (turnsCsv ?w)
          = map I [1 .. int (length (turnNumbersOf ''s1'' (turnsCsv ?w)))]"
    by (rule turn_numbers_consecutive_ordinary)
  then have "turnNumbersOf ''s1'' ?rows = map I [1 .. int (length (turnNumbersOf ''s1'' ?rows))]"
    by (simp only: rows)
  with rows show ?thesis by simp
qed

text \<open>
  Claim C1. For every session, the turn numbers of the rows of the turns ledger that
  belong to it are \<open>1, 2, 3, \<dots>\<close>, also when each event is processed by a new process.
  The program does not do this for the session identifier \<^verbatim>\<open>constructor\<close>: the lookup
  \<^verbatim>\<open>this.currentTurn["constructor"]\<close> finds the function every object inherits, so no
  state is loaded and no turn is initialised. From the initial state, two prompts of that
  session, each in a process of its own, write two turn rows, the first already at the
  first prompt, and the turn number of both is undefined (an empty field in the file:
  \<^verbatim>\<open>constructor,dev,,,1000,,0,0\<close>); the prompt rows carry \<^verbatim>\<open>NaN\<close>; no state is kept.
\<close>

theorem turn_numbers_constructor_session:
  "turnsCsv (run (initialWorld ''dev'' \<lparr>repoUrl = ''u'', repoName = ''n'', repoBranch = ''main'',
        repoHeadCommit = ''abc''\<rparr>)
     [(True,
       \<lparr>now = 1000, generatedSessionId = ''g'', transcriptFile = Map.empty,
        gitOperationRow = (\<lambda>c. None), gitCommitRow = (\<lambda>c. None)\<rparr>,
       EventObject
        \<lparr>hook_event_name = Some ''UserPromptSubmit'', tool_name = None,
         session_id = ''constructor'',
         prompt = Some ''fix the bug'', tool_input_size = 2, tool_input_command = None,
         tool_output_size = 2, success = True, transcript_path = None,
         was_interrupted = False, tokens_before = None, context_window_before = None,
         tokens_after = None, context_window_after = None, compaction_type = None,
         event_type = None, trigger_reason = None, event_reason = None\<rparr>),
      (True,
       \<lparr>now = 2000, generatedSessionId = ''g'', transcriptFile = Map.empty,
        gitOperationRow = (\<lambda>c. None), gitCommitRow = (\<lambda>c. None)\<rparr>,
       EventObject
        \<lparr>hook_event_name = Some ''UserPromptSubmit'', tool_name = None,
         session_id = ''constructor'',
         prompt = Some ''now add a test'', tool_input_size = 2, tool_input_command = None,
         tool_output_size = 2, success = True, transcript_path = None,
         was_interrupted = False, tokens_before = None, context_window_before = None,
         tokens_after = None, context_window_after = None, compaction_type = None,
         event_type = None, trigger_reason = None, event_reason = None\<rparr>)])
   = [[S ''constructor'', S ''dev'', Undef, Undef, I 1000, Undef, R 0, I 0],
      [S ''constructor'', S ''dev'', Undef, Undef, I 2000, Undef, R 0, I 0]]
   \<and> turnNumbersOf ''constructor''
        [[S ''constructor'', S ''dev'', Undef, Undef, I 1000, Undef, R 0, I 0],
         [S ''constructor'', S ''dev'', Undef, Undef, I 2000, Undef, R 0, I 0]]
       = [Undef, Undef]
   \<and> map (\<lambda>row. row ! 2)
        (promptsCsv (run (initialWorld ''dev'' \<lparr>repoUrl = ''u'', repoName = ''n'',
            repoBranch = ''main'', repoHeadCommit = ''abc''\<rparr>)
         [(True,
           \<lparr>now = 1000, generatedSessionId = ''g'', transcriptFile = Map.empty,
            gitOperationRow = (\<lambda>c. None), gitCommitRow = (\<lambda>c. None)\<rparr>,
           EventObject
            \<lparr>hook_event_name = Some ''UserPromptSubmit'', tool_name = None,
             session_id = ''constructor'',
             prompt = Some ''fix the bug'', tool_input_size = 2, tool_input_command = None,
             tool_output_size = 2, success = True, transcript_path = None,
             was_interrupted = False, tokens_before = None, context_window_before = None,
             tokens_after = None, context_window_after = None, compaction_type = None,
             event_type = None, trigger_reason = None, event_reason = None\<rparr>),
          (True,
           \<lparr>now = 2000, generatedSessionId = ''g'', transcriptFile = Map.empty,
            gitOperationRow = (\<lambda>c. None), gitCommitRow = (\<lambda>c. None)\<rparr>,
           EventObject
            \<lparr>hook_event_name = Some ''UserPromptSubmit'', tool_name = None,
             session_id = ''constructor'',
             prompt = Some ''now add a test'', tool_input_size = 2, tool_input_command = None,
             tool_output_size = 2, success = True, transcript_path = None,
             was_interrupted = False, tokens_before = None, context_window_before = None,
             tokens_after = None, context_window_after = None, compaction_type = None,
             event_type = None, trigger_reason = None, event_reason = None\<rparr>)]))
       = [NaN, NaN]"
  by code_simp

section \<open>Well-formed in-flight tables\<close>

lemma keysWellFormed_Nil: "keysWellFormed []"
  by (simp add: keysWellFormed_def)

lemma keysWellFormed_update:
  "keysWellFormed d \<Longrightarrow> k \<noteq> [] \<Longrightarrow> keysWellFormed (AList.update k v d)"
  by (auto simp: keysWellFormed_def distinct_update dom_update)

lemma keysWellFormed_delete: "keysWellFormed d \<Longrightarrow> keysWellFormed (AList.delete k d)"
  by (auto simp: keysWellFormed_def delete_keys distinct_removeAll)

lemma inflightInvariant_loadIfAbsent:
  "inflightInvariant w \<Longrightarrow> inflightInvariant (loadIfAbsent sid w)"
  unfolding inflightInvariant_def loadIfAbsent_def loadTurnState_def
  by (auto split: option.splits)

lemma inflightInvariant_saveTurnState:
  "inflightInvariant w \<Longrightarrow> inflightInvariant (saveTurnState sid w)"
  unfolding inflightInvariant_def saveTurnState_def
  by (auto simp: keysWellFormed_Nil split: option.splits)

lemma inflightInvariant_other_fields:
  "inflightInvariant (x\<lparr>toolsCsv := u1\<rparr>) = inflightInvariant x"
  "inflightInvariant (x\<lparr>currentTurn := u2\<rparr>) = inflightInvariant x"
  "inflightInvariant (x\<lparr>toolCounter := u3\<rparr>) = inflightInvariant x"
  "inflightInvariant (x\<lparr>stderr := u4\<rparr>) = inflightInvariant x"
  "inflightInvariant (x\<lparr>costsCsv := u5\<rparr>) = inflightInvariant x"
  "inflightInvariant (x\<lparr>compactionsCsv := u6\<rparr>) = inflightInvariant x"
  "inflightInvariant (x\<lparr>promptsCsv := u7\<rparr>) = inflightInvariant x"
  "inflightInvariant (x\<lparr>turnsCsv := u8\<rparr>) = inflightInvariant x"
  "inflightInvariant (x\<lparr>sessionsCsv := u9\<rparr>) = inflightInvariant x"
  "inflightInvariant (x\<lparr>gitOpsCsv := u10\<rparr>) = inflightInvariant x"
  "inflightInvariant (x\<lparr>commitsCsv := u11\<rparr>) = inflightInvariant x"
  by (simp_all add: inflightInvariant_def)

lemma inflightInvariant_store:
  "inflightInvariant x \<Longrightarrow> keysWellFormed d \<Longrightarrow>
     inflightInvariant (x\<lparr>toolStartData := (toolStartData x)(sid \<mapsto> d)\<rparr>)"
  by (simp add: inflightInvariant_def)

lemma inflightInvariant_forget:
  "inflightInvariant x \<Longrightarrow>
     inflightInvariant (x\<lparr>toolStartData := (toolStartData x)(sid := None)\<rparr>)"
  by (simp add: inflightInvariant_def)

lemma inflightInvariant_lookup:
  "inflightInvariant x \<Longrightarrow>
     keysWellFormed (case toolStartData x sid of None \<Rightarrow> [] | Some d \<Rightarrow> d)"
  by (auto simp: inflightInvariant_def keysWellFormed_Nil split: option.splits dest: spec [of _ sid])

lemma inflightInvariant_git:
  "inflightInvariant (handleGitCommand a c w) = inflightInvariant w"
  "inflightInvariant (handleGitOperations a c w) = inflightInvariant w"
  by (simp_all add: handleGitCommand_def handleGitOperations_def inflightInvariant_other_fields
        split: option.splits)

lemma inflightInvariant_handleTurnStart:
  "inflightInvariant w \<Longrightarrow> inflightInvariant (handleTurnStart a sid ev w)"
  by (auto simp: handleTurnStart_def Let_def writeTurnData_def inflightInvariant_other_fields
        split: option.splits
        intro!: inflightInvariant_saveTurnState inflightInvariant_loadIfAbsent)

lemma inflightInvariant_handleToolStart:
  assumes "inflightInvariant w"
  shows "inflightInvariant (handleToolStart a sid tname ev w)"
proof -
  define w2 where "w2 = (case currentTurn (loadIfAbsent sid w) sid of
                  None \<Rightarrow> loadIfAbsent sid w
                | Some t \<Rightarrow>
                    (loadIfAbsent sid w)\<lparr>currentTurn :=
                       (currentTurn (loadIfAbsent sid w))(sid \<mapsto> t\<lparr>toolCount := toolCount t + 1\<rparr>)\<rparr>)"
  have i2: "inflightInvariant w2"
    using inflightInvariant_loadIfAbsent [OF assms, of sid]
    by (simp add: w2_def inflightInvariant_other_fields split: option.splits)
  define w3 where "w3 =
         w2\<lparr>toolCounter := (toolCounter w2)(sid \<mapsto>
                 (case toolCounter w2 sid of None \<Rightarrow> 0 | Some c \<Rightarrow> c) + 1),
             toolStartData := (toolStartData w2)(sid \<mapsto>
                AList.update
                  (sid @ ''_'' @ tname @ ''_'' @
                     numberToString ((case toolCounter w2 sid of None \<Rightarrow> 0 | Some c \<Rightarrow> c) + 1))
                  \<lparr>toolName = tname, turnNumber = getCurrentTurnNumber sid (loadIfAbsent sid w),
                    toolStartTime = now a, inputSize = tool_input_size ev\<rparr>
                  (case toolStartData w2 sid of None \<Rightarrow> [] | Some d \<Rightarrow> d))\<rparr>"
  have "inflightInvariant (w2\<lparr>toolCounter := (toolCounter w2)(sid \<mapsto>
                 (case toolCounter w2 sid of None \<Rightarrow> 0 | Some c \<Rightarrow> c) + 1)\<rparr>)"
    using i2 by (simp add: inflightInvariant_other_fields)
  then have i3: "inflightInvariant w3"
    unfolding w3_def
    using inflightInvariant_store
      [of "w2\<lparr>toolCounter := (toolCounter w2)(sid \<mapsto>
                 (case toolCounter w2 sid of None \<Rightarrow> 0 | Some c \<Rightarrow> c) + 1)\<rparr>"
          "AList.update
                  (sid @ ''_'' @ tname @ ''_'' @
                     numberToString ((case toolCounter w2 sid of None \<Rightarrow> 0 | Some c \<Rightarrow> c) + 1))
                  \<lparr>toolName = tname, turnNumber = getCurrentTurnNumber sid (loadIfAbsent sid w),
                    toolStartTime = now a, inputSize = tool_input_size ev\<rparr>
                  (case toolStartData w2 sid of None \<Rightarrow> [] | Some d \<Rightarrow> d)" sid]
      keysWellFormed_update [OF inflightInvariant_lookup [OF i2, of sid]]
    by simp
  have eq: "handleToolStart a sid tname ev w =
      (if tname = ''Bash'' \<and> truthy (tool_input_command ev)
       then handleGitOperations a (the (tool_input_command ev)) (saveTurnState sid w3)
       else saveTurnState sid w3)"
    unfolding handleToolStart_def Let_def w2_def w3_def by (rule refl)
  show ?thesis
    using inflightInvariant_saveTurnState [OF i3, of sid] by (simp add: eq inflightInvariant_git)
qed

lemma inflightInvariant_handleToolEnd:
  assumes "inflightInvariant w"
  shows "inflightInvariant (handleToolEnd a sid tname ev w)"
proof -
  define w1 where "w1 = loadIfAbsent sid w"
  have i1: "inflightInvariant w1"
    unfolding w1_def using assms by (rule inflightInvariant_loadIfAbsent)
  have del: "inflightInvariant
      (w1\<lparr>toolsCsv := rows,
          toolStartData := (toolStartData w1)(sid \<mapsto> AList.delete k (the (toolStartData w1 sid)))\<rparr>)"
    if "toolStartData w1 sid = Some d" for rows k d
  proof -
    have "keysWellFormed d" using inflightInvariant_lookup [OF i1, of sid] that by simp
    then have "keysWellFormed (AList.delete k d)" by (rule keysWellFormed_delete)
    with i1 that show ?thesis by (simp add: inflightInvariant_def)
  qed
  show ?thesis
    unfolding handleToolEnd_def Let_def w1_def [symmetric]
    using i1 del
    by (auto simp: inflightInvariant_other_fields inflightInvariant_git
          split: option.splits prod.splits intro!: inflightInvariant_saveTurnState)
qed

lemma inflightInvariant_handleCompaction:
  "inflightInvariant w \<Longrightarrow> inflightInvariant (handleCompaction a sid ev w)"
  by (simp add: handleCompaction_def Let_def inflightInvariant_other_fields)

lemma inflightInvariant_handleSessionEnd:
  assumes "inflightInvariant w"
  shows "inflightInvariant (handleSessionEnd a sid ev w)"
proof -
  have clean: "inflightInvariant x \<Longrightarrow> inflightInvariant (cleanupSession sid x)" for x
    by (simp add: cleanupSession_def inflightInvariant_def)
  have upd: "inflightInvariant (updateSessionRecord sid n c i e x) = inflightInvariant x"
    for n c i e x
    by (simp add: updateSessionRecord_def Let_def inflightInvariant_other_fields)
  show ?thesis
    unfolding handleSessionEnd_def Let_def
    using inflightInvariant_loadIfAbsent [OF assms, of sid]
    by (auto simp: upd inflightInvariant_other_fields split: option.splits
          intro!: clean inflightInvariant_saveTurnState)
qed

lemma inflightInvariant_processHookEvent:
  "inflightInvariant w \<Longrightarrow> inflightInvariant (processHookEvent a eventData w)"
  by (simp add: processHookEvent_def inflightInvariant_other_fields
        inflightInvariant_handleTurnStart inflightInvariant_handleToolStart
        inflightInvariant_handleToolEnd inflightInvariant_handleCompaction
        inflightInvariant_handleSessionEnd split: validation.splits eventData.splits)

lemma inflightInvariant_freshProcess:
  "inflightInvariant w \<Longrightarrow> inflightInvariant (freshProcess w)"
  by (simp add: inflightInvariant_def freshProcess_def)

lemma inflightInvariant_initialWorld: "inflightInvariant (initialWorld uid r)"
  by (simp add: inflightInvariant_def initialWorld_def)

lemma inflightInvariant_run: "inflightInvariant w \<Longrightarrow> inflightInvariant (run w steps)"
proof (induction steps arbitrary: w)
  case Nil
  then show ?case by simp
next
  case (Cons step steps)
  obtain fresh a eventData where step: "step = (fresh, a, eventData)" by (cases step)
  have "inflightInvariant (if fresh then freshProcess w else w)"
    using Cons.prems by (simp add: inflightInvariant_freshProcess)
  then have "inflightInvariant (processHookEvent a eventData (if fresh then freshProcess w else w))"
    by (rule inflightInvariant_processHookEvent)
  then show ?case unfolding step by (simp add: Cons.IH)
qed

text \<open>
  In every state the engine reaches from its initial state, the in-flight entries a
  handler finds for a session have distinct, non-empty keys.
\<close>

lemma reachable_inflight_keys:
  "distinct (map fst (inflightOf s (run (initialWorld uid r) steps)))
   \<and> [] \<notin> set (map fst (inflightOf s (run (initialWorld uid r) steps)))"
proof -
  have "inflightInvariant (loadIfAbsent s (run (initialWorld uid r) steps))"
    by (intro inflightInvariant_loadIfAbsent inflightInvariant_run inflightInvariant_initialWorld)
  from inflightInvariant_lookup [OF this, of s] show ?thesis
    by (simp add: inflightOf_def keysWellFormed_def)
qed

end
